theory Spec2Isabelle
  imports Complex_Main
begin

section \<open>Engine string primitives\<close>

text \<open>
  \<open>LifeContracts.cpp\<close> works on the engine's \<open>FString\<close>. The operations it calls are
  modelled on Isabelle strings with the engine's behaviour. \<open>FString\<close> compares ignoring
  case: its \<open>operator==\<close> is \<open>Equals(Rhs, ESearchCase::IgnoreCase)\<close>, and \<open>StartsWith\<close>
  and \<open>Contains\<close> take \<open>ESearchCase::IgnoreCase\<close> as their default. \<open>Mid\<close> is a
  substring, \<open>TrimStart\<close> and \<open>TrimStartAndEnd\<close> strip \<open>FChar::IsWhitespace\<close> characters
  and \<open>ParseIntoArray\<close> splits on a delimiter, culling empty pieces on request. Characters
  are bytes here; case folding covers the ASCII letters.
\<close>

definition FChar_IsWhitespace :: "char \<Rightarrow> bool" where
  "FChar_IsWhitespace c =
     (c \<in> set [CHR '' '', CHR 0x09, CHR 0x0A, CHR 0x0B, CHR 0x0C, CHR 0x0D])"

definition FChar_IsDigit :: "char \<Rightarrow> bool" where
  "FChar_IsDigit c = (let n = (of_char c :: nat) in 48 \<le> n \<and> n \<le> 57)"

definition FChar_ToLower :: "char \<Rightarrow> char" where
  "FChar_ToLower c =
     (case map_of (zip ''ABCDEFGHIJKLMNOPQRSTUVWXYZ'' ''abcdefghijklmnopqrstuvwxyz'') c of
        Some l \<Rightarrow> l
      | None \<Rightarrow> c)"

definition FString_Equals :: "string \<Rightarrow> string \<Rightarrow> bool" where
  \<comment> \<open>\<open>Lhs == Rhs\<close> on \<open>FString\<close>: equality ignoring case.\<close>
  "FString_Equals a b = (map FChar_ToLower a = map FChar_ToLower b)"

definition StartsWith :: "string \<Rightarrow> string \<Rightarrow> bool" where
  "StartsWith s p = (p \<noteq> [] \<and> FString_Equals (take (length p) s) p)"

fun Contains :: "string \<Rightarrow> string \<Rightarrow> bool" where
  "Contains [] sub = False"
| "Contains (c # cs) sub = (StartsWith (c # cs) sub \<or> Contains cs sub)"

definition Mid :: "string \<Rightarrow> nat \<Rightarrow> string" where
  "Mid s start = drop start s"

definition MidCount :: "string \<Rightarrow> nat \<Rightarrow> nat \<Rightarrow> string" where
  "MidCount s start count = take count (drop start s)"

definition TrimStart :: "string \<Rightarrow> string" where
  "TrimStart s = dropWhile FChar_IsWhitespace s"

definition TrimStartAndEnd :: "string \<Rightarrow> string" where
  "TrimStartAndEnd s = rev (dropWhile FChar_IsWhitespace (rev (dropWhile FChar_IsWhitespace s)))"

fun SplitOn :: "char \<Rightarrow> string \<Rightarrow> string list" where
  "SplitOn d [] = [[]]"
| "SplitOn d (c # cs) =
     (if c = d then [] # SplitOn d cs
      else (case SplitOn d cs of [] \<Rightarrow> [[c]] | p # ps \<Rightarrow> (c # p) # ps))"

definition ParseIntoArray :: "string \<Rightarrow> char \<Rightarrow> bool \<Rightarrow> string list" where
  "ParseIntoArray s delim cullEmpty =
     (if s = [] then []
      else if cullEmpty then filter (\<lambda>p. p \<noteq> []) (SplitOn delim s)
      else SplitOn delim s)"

subsection \<open>Numeric conversions\<close>

text \<open>
  \<open>FCString::Atoi64\<close> and \<open>FCString::Strtoui64\<close> are the C library's \<open>strtoll\<close> and
  \<open>strtoull\<close> in base 10: leading white space, an optional sign, then the longest run of
  digits; no digits gives 0; a value out of range saturates; \<open>strtoull\<close> negates a signed
  input modulo \<open>2^64\<close>.

  A \<open>double\<close> is the real number it represents. The result of a floating-point
  operation, and of \<open>FCString::Atod\<close> (\<open>strtod\<close>), is the exact result rounded to a
  double. The rounding function \<open>rnd\<close> is a parameter of the model; \<open>DoubleRounding\<close>
  is the error bound that rounding to the nearest binary64 number satisfies on the range of
  magnitudes up to \<open>10^7\<close>: a relative error of at most \<open>2^-52\<close>, or an absolute one below
  \<open>1e-300\<close> for results near zero. Exact arithmetic (\<open>Exact\<close>, the identity) satisfies
  it; only the Range rule on a \<open>float\<close> or \<open>double\<close> property depends on \<open>rnd\<close>.
\<close>

definition INT64_MIN :: int where "INT64_MIN = - (2 ^ 63)"
definition INT64_MAX :: int where "INT64_MAX = 2 ^ 63 - 1"
definition UINT64_MAX :: int where "UINT64_MAX = 2 ^ 64 - 1"

fun DigitsValue :: "int \<Rightarrow> string \<Rightarrow> int" where
  "DigitsValue acc [] = acc"
| "DigitsValue acc (c # cs) =
     (if FChar_IsDigit c then DigitsValue (acc * 10 + (int (of_char c) - 48)) cs else acc)"

definition IsNegative :: "string \<Rightarrow> bool" where
  "IsNegative t = (case t of [] \<Rightarrow> False | c # _ \<Rightarrow> c = CHR ''-'')"

definition SkipSign :: "string \<Rightarrow> string" where
  "SkipSign t = (case t of [] \<Rightarrow> [] | c # cs \<Rightarrow> if c = CHR ''-'' \<or> c = CHR ''+'' then cs else t)"

definition Atoi64 :: "string \<Rightarrow> int" where
  "Atoi64 s =
     (let t = dropWhile FChar_IsWhitespace s;
          n = DigitsValue 0 (SkipSign t)
      in if IsNegative t then max INT64_MIN (- n) else min INT64_MAX n)"

definition Strtoui64 :: "string \<Rightarrow> int" where
  "Strtoui64 s =
     (let t = dropWhile FChar_IsWhitespace s;
          n = DigitsValue 0 (SkipSign t)
      in if n > UINT64_MAX then UINT64_MAX
         else if IsNegative t then (- n) mod 2 ^ 64 else n)"

definition Pow10 :: "int \<Rightarrow> real" where
  "Pow10 e = (if 0 \<le> e then 10 ^ nat e else 1 / 10 ^ nat (- e))"

definition ExponentOf :: "string \<Rightarrow> int" where
  \<comment> \<open>the exponent part \<open>e[sign]digits\<close>, if the rest of the literal starts with one\<close>
  "ExponentOf r =
     (case r of
        [] \<Rightarrow> 0
      | c # cs \<Rightarrow>
          if (c = CHR ''e'' \<or> c = CHR ''E'') \<and> takeWhile FChar_IsDigit (SkipSign cs) \<noteq> []
          then (if IsNegative cs then - DigitsValue 0 (SkipSign cs) else DigitsValue 0 (SkipSign cs))
          else 0)"

definition DecimalValue :: "string \<Rightarrow> real" where
  \<comment> \<open>the exact value of the decimal literal that \<open>strtod\<close> reads from the string\<close>
  "DecimalValue s =
     (let t = dropWhile FChar_IsWhitespace s;
          u = SkipSign t;
          ip = takeWhile FChar_IsDigit u;
          r1 = dropWhile FChar_IsDigit u;
          hasPoint = (case r1 of [] \<Rightarrow> False | c # _ \<Rightarrow> c = CHR ''.'');
          fp = (if hasPoint then takeWhile FChar_IsDigit (tl r1) else []);
          r2 = (if hasPoint then dropWhile FChar_IsDigit (tl r1) else r1)
      in if ip = [] \<and> fp = [] then 0
         else (let m = real_of_int (DigitsValue 0 (ip @ fp)) / 10 ^ length fp * Pow10 (ExponentOf r2)
               in if IsNegative t then - m else m))"

definition Atod :: "(real \<Rightarrow> real) \<Rightarrow> string \<Rightarrow> real" where
  "Atod rnd s = rnd (DecimalValue s)"

definition Exact :: "real \<Rightarrow> real" where
  \<comment> \<open>arithmetic without rounding error\<close>
  "Exact x = x"

definition DoubleRounding :: "(real \<Rightarrow> real) \<Rightarrow> bool" where
  "DoubleRounding rnd =
     (\<forall>y. \<bar>y\<bar> \<le> 10 ^ 7 \<longrightarrow> \<bar>rnd y - y\<bar> \<le> \<bar>y\<bar> / 2 ^ 52 + 1 / 10 ^ 300)"

section \<open>The reflected object model\<close>

text \<open>
  The reflection layer is the engine's. A property's class is a \<open>PropertyKind\<close>; container
  kinds carry the kinds of their inner properties, an object property carries its declared
  \<open>PropertyClass\<close>. \<open>CastField<T>\<close> follows the engine's hierarchy, where
  \<open>FClassProperty\<close> derives from \<open>FObjectProperty\<close> and \<open>FSoftClassProperty\<close> from
  \<open>FSoftObjectProperty\<close>; every other kind used here is a leaf.
\<close>

datatype PropertyKind =
    FInt8Property | FInt16Property | FIntProperty | FInt64Property
  | FByteProperty | FUInt16Property | FUInt32Property | FUInt64Property
  | FFloatProperty | FDoubleProperty
  | FBoolProperty | FNameProperty | FStrProperty | FStructProperty
  | FObjectProperty string | FClassProperty
  | FWeakObjectProperty | FSoftObjectProperty | FSoftClassProperty
  | FInterfaceProperty
  | FArrayProperty PropertyKind
  | FSetProperty PropertyKind
  | FMapProperty PropertyKind PropertyKind
  | FOptionalProperty PropertyKind

fun CastField_FObjectProperty :: "PropertyKind \<Rightarrow> bool" where
  "CastField_FObjectProperty (FObjectProperty c) = True"
| "CastField_FObjectProperty FClassProperty = True"
| "CastField_FObjectProperty _ = False"

fun CastField_FSoftObjectProperty :: "PropertyKind \<Rightarrow> bool" where
  "CastField_FSoftObjectProperty FSoftObjectProperty = True"
| "CastField_FSoftObjectProperty FSoftClassProperty = True"
| "CastField_FSoftObjectProperty _ = False"

fun CastField_FArrayProperty :: "PropertyKind \<Rightarrow> bool" where
  "CastField_FArrayProperty (FArrayProperty i) = True"
| "CastField_FArrayProperty _ = False"

fun CastField_FSetProperty :: "PropertyKind \<Rightarrow> bool" where
  "CastField_FSetProperty (FSetProperty e) = True"
| "CastField_FSetProperty _ = False"

fun CastField_FMapProperty :: "PropertyKind \<Rightarrow> bool" where
  "CastField_FMapProperty (FMapProperty k v) = True"
| "CastField_FMapProperty _ = False"

fun CastField_FOptionalProperty :: "PropertyKind \<Rightarrow> bool" where
  "CastField_FOptionalProperty (FOptionalProperty v) = True"
| "CastField_FOptionalProperty _ = False"

text \<open>
  Smart pointers are modelled by what their queries observe. A soft pointer is null (the
  empty path), pending (a path whose target is not loaded) or loaded; \<open>IsNull\<close> is true of
  the first only and \<open>IsValid\<close> (\<open>Get() != nullptr\<close>) of the last only. Comparing a
  \<open>TPersistentObjectPtr\<close> (the base of \<open>FSoftObjectPtr\<close>) with \<open>nullptr\<close> is the
  engine's \<open>operator==(TYPE_OF_NULLPTR)\<close>, which returns \<open>!IsValid()\<close>; a weak pointer
  compares unequal to \<open>nullptr\<close> exactly when it \<open>IsValid()\<close>.
\<close>

datatype FSoftObjectPtr = SoftNull | SoftPending | SoftLoaded

datatype FWeakObjectPtr = WeakNull | WeakStale | WeakLive

datatype FName = NAME_None | Name string

definition FSoftObjectPtr_IsNull :: "FSoftObjectPtr \<Rightarrow> bool" where
  "FSoftObjectPtr_IsNull p = (p = SoftNull)"

definition FSoftObjectPtr_IsValid :: "FSoftObjectPtr \<Rightarrow> bool" where
  "FSoftObjectPtr_IsValid p = (p = SoftLoaded)"

definition FSoftObjectPtr_NotNullptr :: "FSoftObjectPtr \<Rightarrow> bool" where
  \<comment> \<open>\<open>Value != nullptr\<close>\<close>
  "FSoftObjectPtr_NotNullptr p = FSoftObjectPtr_IsValid p"

definition FWeakObjectPtr_IsValid :: "FWeakObjectPtr \<Rightarrow> bool" where
  "FWeakObjectPtr_IsValid p = (p = WeakLive)"

definition FWeakObjectPtr_NotNullptr :: "FWeakObjectPtr \<Rightarrow> bool" where
  \<comment> \<open>\<open>Value != nullptr\<close>\<close>
  "FWeakObjectPtr_NotNullptr p = FWeakObjectPtr_IsValid p"

definition FName_IsNone :: "FName \<Rightarrow> bool" where
  "FName_IsNone n = (n = NAME_None)"

type_synonym addr = nat

text \<open>
  The value stored at a property's address. A raw object pointer is \<open>None\<close> for
  \<open>nullptr\<close>. Sets and maps are sparse: a slot is \<open>None\<close> where \<open>IsValidIndex\<close> is false.
\<close>

datatype PropertyValue =
    IntValue int
  | FloatValue real
  | BoolValue bool
  | NameValue FName
  | ObjectValue "addr option"
  | WeakValue FWeakObjectPtr
  | SoftValue FSoftObjectPtr
  | InterfaceValue "addr option"
  | ArrayValue "PropertyValue list"
  | SetValue "PropertyValue option list"
  | MapValue "(PropertyValue \<times> PropertyValue) option list"
  | OptionalValue "PropertyValue option"
  | OtherValue

fun GetInt :: "PropertyValue \<Rightarrow> int" where
  "GetInt (IntValue i) = i"
| "GetInt _ = 0"

fun GetFloat :: "PropertyValue \<Rightarrow> real" where
  "GetFloat (FloatValue x) = x"
| "GetFloat _ = 0"

fun GetBool :: "PropertyValue \<Rightarrow> bool" where
  "GetBool (BoolValue b) = b"
| "GetBool _ = False"

fun GetName :: "PropertyValue \<Rightarrow> FName" where
  "GetName (NameValue n) = n"
| "GetName _ = NAME_None"

fun GetObject :: "PropertyValue \<Rightarrow> addr option" where
  "GetObject (ObjectValue p) = p"
| "GetObject (InterfaceValue p) = p"
| "GetObject _ = None"

fun GetWeak :: "PropertyValue \<Rightarrow> FWeakObjectPtr" where
  "GetWeak (WeakValue w) = w"
| "GetWeak _ = WeakNull"

fun GetSoft :: "PropertyValue \<Rightarrow> FSoftObjectPtr" where
  "GetSoft (SoftValue s) = s"
| "GetSoft _ = SoftNull"

fun GetArray :: "PropertyValue \<Rightarrow> PropertyValue list" where
  "GetArray (ArrayValue xs) = xs"
| "GetArray _ = []"

fun GetSet :: "PropertyValue \<Rightarrow> PropertyValue option list" where
  "GetSet (SetValue xs) = xs"
| "GetSet _ = []"

fun GetMap :: "PropertyValue \<Rightarrow> (PropertyValue \<times> PropertyValue) option list" where
  "GetMap (MapValue xs) = xs"
| "GetMap _ = []"

fun GetOptional :: "PropertyValue \<Rightarrow> PropertyValue option" where
  "GetOptional (OptionalValue v) = v"
| "GetOptional _ = None"

section \<open>Pointer validity and container validation\<close>

fun IsPointerPropertyValueValid :: "PropertyKind \<Rightarrow> PropertyValue \<Rightarrow> bool" where
  "IsPointerPropertyValueValid ElementProperty Element =
     (if CastField_FObjectProperty ElementProperty then GetObject Element \<noteq> None
      else if ElementProperty = FWeakObjectProperty then FWeakObjectPtr_IsValid (GetWeak Element)
      else if CastField_FSoftObjectProperty ElementProperty
        then \<not> FSoftObjectPtr_IsNull (GetSoft Element)
      else if ElementProperty = FSoftClassProperty then \<not> FSoftObjectPtr_IsNull (GetSoft Element)
      else if ElementProperty = FClassProperty then GetObject Element \<noteq> None
      else if ElementProperty = FInterfaceProperty then GetObject Element \<noteq> None
      else True)"

definition IsPointerLikeProperty :: "PropertyKind \<Rightarrow> bool" where
  "IsPointerLikeProperty Prop =
     (CastField_FObjectProperty Prop \<or> Prop = FWeakObjectProperty
      \<or> CastField_FSoftObjectProperty Prop \<or> Prop = FSoftClassProperty
      \<or> Prop = FClassProperty \<or> Prop = FInterfaceProperty)"

fun ArrayLoop :: "PropertyKind \<Rightarrow> PropertyValue list \<Rightarrow> bool" where
  "ArrayLoop InnerProp [] = True"
| "ArrayLoop InnerProp (e # es) =
     (if \<not> IsPointerPropertyValueValid InnerProp e then False else ArrayLoop InnerProp es)"

fun SetLoop :: "PropertyKind \<Rightarrow> PropertyValue option list \<Rightarrow> bool" where
  "SetLoop ElementProp [] = True"
| "SetLoop ElementProp (None # ss) = SetLoop ElementProp ss"
| "SetLoop ElementProp (Some e # ss) =
     (if \<not> IsPointerPropertyValueValid ElementProp e then False else SetLoop ElementProp ss)"

fun MapLoop :: "PropertyKind \<Rightarrow> PropertyKind \<Rightarrow> (PropertyValue \<times> PropertyValue) option list \<Rightarrow> bool"
  where
  "MapLoop KeyProp ValueProp [] = True"
| "MapLoop KeyProp ValueProp (None # ss) = MapLoop KeyProp ValueProp ss"
| "MapLoop KeyProp ValueProp (Some (k, v) # ss) =
     (if IsPointerLikeProperty KeyProp \<and> \<not> IsPointerPropertyValueValid KeyProp k then False
      else if IsPointerLikeProperty ValueProp \<and> \<not> IsPointerPropertyValueValid ValueProp v then False
      else MapLoop KeyProp ValueProp ss)"

definition HelperNum :: "'a option list \<Rightarrow> nat" where
  \<comment> \<open>\<open>Num()\<close> of a script set or map helper: the number of live elements\<close>
  "HelperNum slots = length (filter (\<lambda>s. s \<noteq> None) slots)"

fun ValidateMemSafeContainer :: "PropertyKind \<Rightarrow> PropertyValue \<Rightarrow> bool" where
  "ValidateMemSafeContainer (FArrayProperty InnerProp) V =
     (if \<not> IsPointerLikeProperty InnerProp then True else ArrayLoop InnerProp (GetArray V))"
| "ValidateMemSafeContainer (FSetProperty ElementProp) V =
     (if \<not> IsPointerLikeProperty ElementProp then True
      else SetLoop ElementProp (take (HelperNum (GetSet V)) (GetSet V)))"
| "ValidateMemSafeContainer (FMapProperty KeyProp ValueProp) V =
     (if \<not> IsPointerLikeProperty KeyProp \<and> \<not> IsPointerLikeProperty ValueProp then True
      else MapLoop KeyProp ValueProp (take (HelperNum (GetMap V)) (GetMap V)))"
| "ValidateMemSafeContainer (FOptionalProperty ValueProperty) V =
     (let bIsSet = (GetOptional V \<noteq> None) in
      if \<not> bIsSet then True
      else if \<not> IsPointerLikeProperty ValueProperty then True
      else (case GetOptional V of None \<Rightarrow> False | Some ValueAddress \<Rightarrow> True))"
| "ValidateMemSafeContainer _ V = False"

section \<open>Classes, objects and the heap\<close>

text \<open>
  \<open>TFieldIterator\<close> enumerates the properties and functions of a class, inherited ones
  included; a class carries both lists in iteration order. \<open>InvariantMeta\<close> is the value of
  the \<open>Invariant\<close> metadata key, if the property has one. \<open>NumParms\<close> counts the return value
  as a parameter. Classes are compared by identity, which is their name here. Every
  non-null pointer refers to an object of the heap; \<open>ObjIsValid\<close> is the engine's
  \<open>IsValid\<close> on a non-null object (it is not marked as garbage). \<open>ObjReturns\<close> gives what
  \<open>ProcessEvent\<close> leaves in the return slot of the function of that name.
\<close>

record FProperty =
  PropName :: string
  Kind :: PropertyKind
  InvariantMeta :: "string option"

record UFunction =
  FuncName :: string
  HasInvariantMeta :: bool
  FUNC_Const :: bool
  NumParms :: nat
  ReturnProperty :: "PropertyKind option"

record UClass =
  ClassName :: string
  Properties :: "FProperty list"
  Functions :: "UFunction list"

record UObject =
  ObjClass :: UClass
  ObjIsValid :: bool
  ObjValues :: "string \<Rightarrow> PropertyValue"
  ObjReturns :: "string \<Rightarrow> bool"

type_synonym Heap = "addr \<Rightarrow> UObject"

definition IsValid :: "Heap \<Rightarrow> addr option \<Rightarrow> bool" where
  "IsValid H p = (case p of None \<Rightarrow> False | Some a \<Rightarrow> ObjIsValid (H a))"

definition FindFunctionByName :: "UClass \<Rightarrow> string \<Rightarrow> UFunction option" where
  \<comment> \<open>names are \<open>FName\<close>s, compared ignoring case\<close>
  "FindFunctionByName C n = find (\<lambda>F. FString_Equals (FuncName F) n) (Functions C)"

section \<open>Failures\<close>

text \<open>
  Every \<open>checkf\<close>, \<open>checkNoEntry\<close> and contract macro of \<open>CheckClassInvariants\<close> is fatal
  (\<open>LG_PRECOND\<close>, which the sources use without defining it, is read as the header's
  \<open>PRECOND\<close>).
  \<open>Failure\<close> has one constructor per call site, carrying the arguments of its format
  string; \<open>FailureText\<close> is the formatted message. Reading a member through a null pointer is
  not a check of the program: it is the separate outcome \<open>NullDereference\<close>.
\<close>

datatype Failure =
    PrecondObject
  | MemSafeViolation string string
  | MemSafeNonPointer string string
  | ContainerNonContainer string string
  | ContainerViolation string string
  | IDViolation string string
  | Gte0Violation string string
  | Gt0Violation string string
  | Lte0Violation string string
  | Lt0Violation string string
  | RangeNoEntry
  | RangeInvalidFormat string string
  | RangeNotTwoBounds string string
  | RangeIntegerBounds string string
  | RangeBoundsOrder
  | RangeBoundsOrderOn string string
  | RangeNonArithmetic string string
  | RangeViolation string string
  | NameViolation string string
  | NameNonFName string string
  | TrueViolation string string
  | TrueNonBool string string
  | FalseViolation string string
  | FalseNonBool string string
  | ContractSameClass
  | ContractViolation string string
  | ContractNonPointer string string
  | FunctionNotFound string
  | FunctionNotConst string
  | FunctionBadParms string
  | FunctionNotBool string
  | CustomCheckFailed string string string
  | MethodNotConst string string
  | MethodBadParms string string
  | MethodNotBool string string
  | MethodCheckFailed string string

definition Quoted :: "string \<Rightarrow> string" where
  "Quoted r = CHR 0x27 # r @ [CHR 0x27]"

fun FailureText :: "Failure \<Rightarrow> string" where
  "FailureText PrecondObject = ''Contract violation (Precondition): [Object]''"
| "FailureText (MemSafeViolation c p) = ''Invariant=MemSafe violation on '' @ c @ ''::'' @ p"
| "FailureText (MemSafeNonPointer c p) =
     ''Invariant=MemSafe used on non-pointer property '' @ c @ ''::'' @ p"
| "FailureText (ContainerNonContainer c p) =
     ''Invariant=MemSafeContainer used on non-container property '' @ c @ ''::'' @ p"
| "FailureText (ContainerViolation c p) =
     ''Invariant=MemSafeContainer violation on '' @ c @ ''::'' @ p
       @ '' (container has null/invalid pointer element)''"
| "FailureText (IDViolation c p) = ''Invariant=ID violation on '' @ c @ ''::'' @ p"
| "FailureText (Gte0Violation c p) = ''Invariant=Gte0 violation on '' @ c @ ''::'' @ p"
| "FailureText (Gt0Violation c p) = ''Invariant=Gt0 violation on '' @ c @ ''::'' @ p"
| "FailureText (Lte0Violation c p) = ''Invariant=Lte0 violation on '' @ c @ ''::'' @ p"
| "FailureText (Lt0Violation c p) = ''Invariant=Lt0 violation on '' @ c @ ''::'' @ p"
| "FailureText RangeNoEntry = ''Enclosing block should never be called''"
| "FailureText (RangeInvalidFormat c p) = ''Invalid Range invariant format on '' @ c @ ''::'' @ p"
| "FailureText (RangeNotTwoBounds c p) =
     ''Range invariant must contain two comma-separated bounds on '' @ c @ ''::'' @ p"
| "FailureText (RangeIntegerBounds c p) =
     ''Range invariant for integer property must use integer bounds on '' @ c @ ''::'' @ p"
| "FailureText RangeBoundsOrder = ''Range invariant lower bound must be <= upper bound''"
| "FailureText (RangeBoundsOrderOn c p) =
     ''Range invariant lower bound must be <= upper bound on '' @ c @ ''::'' @ p"
| "FailureText (RangeNonArithmetic c p) =
     ''Range invariant used on non-arithmetic property '' @ c @ ''::'' @ p"
| "FailureText (RangeViolation c p) = ''Range invariant violation on '' @ c @ ''::'' @ p"
| "FailureText (NameViolation c p) = ''Invariant=name violation on '' @ c @ ''::'' @ p"
| "FailureText (NameNonFName c p) =
     ''Invariant=name used on non-FName property '' @ c @ ''::'' @ p"
| "FailureText (TrueViolation c p) = ''Invariant=True violation on '' @ c @ ''::'' @ p"
| "FailureText (TrueNonBool c p) = ''Invariant=True used on non-bool property '' @ c @ ''::'' @ p"
| "FailureText (FalseViolation c p) = ''Invariant=False violation on '' @ c @ ''::'' @ p"
| "FailureText (FalseNonBool c p) =
     ''Invariant=False used on non-bool property '' @ c @ ''::'' @ p"
| "FailureText ContractSameClass =
     ''Contract violation (An object cannot contain an invariant member of the same class, ''
       @ ''as that would imply an infinite loop of invariants): ''
       @ ''[Value->GetClass() != Object->GetClass()]''"
| "FailureText (ContractViolation c p) = ''Invariant=Contract* violation on '' @ c @ ''::'' @ p"
| "FailureText (ContractNonPointer c p) =
     ''Invariant=Contract* used on non-pointer property '' @ c @ ''::'' @ p"
| "FailureText (FunctionNotFound r) = ''Invariant function '' @ Quoted r @ '' not found.''"
| "FailureText (FunctionNotConst r) = ''Invariant function '' @ Quoted r @ '' must be const.''"
| "FailureText (FunctionBadParms r) =
     ''Invariant function '' @ Quoted r
       @ '' must have exactly one return value (bool) and no parameters.''"
| "FailureText (FunctionNotBool r) = ''Invariant function '' @ Quoted r @ '' must return a bool.''"
| "FailureText (CustomCheckFailed c p r) =
     ''Invariant violation on '' @ c @ ''::'' @ p @ ''. Custom check '' @ Quoted r @ '' failed.''"
| "FailureText (MethodNotConst f c) =
     ''Invariant function '' @ Quoted f @ '' on class '' @ Quoted c @ '' must be const.''"
| "FailureText (MethodBadParms f c) =
     ''Invariant function '' @ Quoted f @ '' on class '' @ Quoted c
       @ '' must have no parameters and return a bool.''"
| "FailureText (MethodNotBool f c) =
     ''Invariant function '' @ Quoted f @ '' on class '' @ Quoted c @ '' must return a bool.''"
| "FailureText (MethodCheckFailed f c) =
     ''Invariant violation: Custom check function '' @ Quoted f @ '' on class '' @ Quoted c @ '' failed.''"

text \<open>
  The specification sorts failures into two tiers: a configuration error (a rule on a
  property of the wrong shape, malformed range syntax, a missing or ill-typed predicate, a
  same-class contract member) and a data violation (the live value fails the rule).
\<close>

datatype Tier = Precondition | ConfigurationError | DataViolation

fun TierOf :: "Failure \<Rightarrow> Tier" where
  "TierOf PrecondObject = Precondition"
| "TierOf (MemSafeViolation c p) = DataViolation"
| "TierOf (ContainerViolation c p) = DataViolation"
| "TierOf (IDViolation c p) = DataViolation"
| "TierOf (Gte0Violation c p) = DataViolation"
| "TierOf (Gt0Violation c p) = DataViolation"
| "TierOf (Lte0Violation c p) = DataViolation"
| "TierOf (Lt0Violation c p) = DataViolation"
| "TierOf (RangeViolation c p) = DataViolation"
| "TierOf (NameViolation c p) = DataViolation"
| "TierOf (TrueViolation c p) = DataViolation"
| "TierOf (FalseViolation c p) = DataViolation"
| "TierOf (ContractViolation c p) = DataViolation"
| "TierOf (CustomCheckFailed c p r) = DataViolation"
| "TierOf (MethodCheckFailed f c) = DataViolation"
| "TierOf _ = ConfigurationError"

datatype Outcome = Passed | Fatal Failure | NullDereference

definition checkf :: "bool \<Rightarrow> Failure \<Rightarrow> Outcome" where
  "checkf Expr F = (if Expr then Passed else Fatal F)"

section \<open>The rules of \<open>CheckClassInvariants\<close>\<close>

subsection \<open>Helpers of \<open>LifeContracts.h\<close>\<close>

text \<open>
  The predicate passed to \<open>TestIntegerProperty\<close> is a generic lambda: it is instantiated
  at the value type of the property, so the model's predicate takes the property kind with
  the value. A predicate may itself hit a \<open>checkf\<close>, hence its result is a sum.
\<close>

definition IsIntegerKind :: "PropertyKind \<Rightarrow> bool" where
  "IsIntegerKind K =
     (K = FInt8Property \<or> K = FInt16Property \<or> K = FIntProperty \<or> K = FInt64Property
      \<or> K = FByteProperty \<or> K = FUInt16Property \<or> K = FUInt32Property \<or> K = FUInt64Property)"

definition IsSigned :: "PropertyKind \<Rightarrow> bool" where
  "IsSigned K =
     (K = FInt8Property \<or> K = FInt16Property \<or> K = FIntProperty \<or> K = FInt64Property)"

definition BitWidth :: "PropertyKind \<Rightarrow> nat" where
  "BitWidth K =
     (if K = FInt8Property \<or> K = FByteProperty then 8
      else if K = FInt16Property \<or> K = FUInt16Property then 16
      else if K = FIntProperty \<or> K = FUInt32Property then 32
      else 64)"

definition static_cast :: "PropertyKind \<Rightarrow> int \<Rightarrow> int" where
  \<comment> \<open>conversion of a 64-bit integer to the property's value type: modulo \<open>2^w\<close>\<close>
  "static_cast K x =
     (let w = BitWidth K in
      if IsSigned K then (x + 2 ^ (w - 1)) mod 2 ^ w - 2 ^ (w - 1) else x mod 2 ^ w)"

definition TestIntegerProperty ::
  "PropertyKind \<Rightarrow> PropertyValue \<Rightarrow> (PropertyKind \<Rightarrow> int \<Rightarrow> Failure + bool) \<Rightarrow> Failure + bool"
  where
  "TestIntegerProperty K V Predicate =
     (if IsIntegerKind K then Predicate K (GetInt V) else Inr False)"

definition TestArithmeticProperty ::
  "PropertyKind \<Rightarrow> PropertyValue \<Rightarrow> (PropertyKind \<Rightarrow> int \<Rightarrow> Failure + bool)
     \<Rightarrow> (real \<Rightarrow> Failure + bool) \<Rightarrow> Failure + bool"
  where
  "TestArithmeticProperty K V PredicateI PredicateF =
     (case TestIntegerProperty K V PredicateI of
        Inl F \<Rightarrow> Inl F
      | Inr True \<Rightarrow> Inr True
      | Inr False \<Rightarrow>
          if K = FFloatProperty then PredicateF (GetFloat V)
          else if K = FDoubleProperty then PredicateF (GetFloat V)
          else Inr False)"

definition checkResult :: "Failure + bool \<Rightarrow> Failure \<Rightarrow> Outcome" where
  \<comment> \<open>\<open>checkf(bIsValid, ...)\<close> after a helper that ran a predicate\<close>
  "checkResult r F = (case r of Inl E \<Rightarrow> Fatal E | Inr bIsValid \<Rightarrow> checkf bIsValid F)"

subsection \<open>MemSafe and MemSafeContainer\<close>

definition MemSafeRule :: "string \<Rightarrow> string \<Rightarrow> PropertyKind \<Rightarrow> PropertyValue \<Rightarrow> Outcome" where
  "MemSafeRule C P K V =
     (if CastField_FObjectProperty K then checkf (GetObject V \<noteq> None) (MemSafeViolation C P)
      else if K = FClassProperty then checkf (GetObject V \<noteq> None) (MemSafeViolation C P)
      else if CastField_FSoftObjectProperty K
        then checkf (FSoftObjectPtr_NotNullptr (GetSoft V)) (MemSafeViolation C P)
      else if K = FWeakObjectProperty
        then checkf (FWeakObjectPtr_NotNullptr (GetWeak V)) (MemSafeViolation C P)
      else if K = FSoftClassProperty
        then checkf (FSoftObjectPtr_NotNullptr (GetSoft V)) (MemSafeViolation C P)
      else if K = FInterfaceProperty then checkf (GetObject V \<noteq> None) (MemSafeViolation C P)
      else Fatal (MemSafeNonPointer C P))"

definition MemSafeContainerRule :: "string \<Rightarrow> string \<Rightarrow> PropertyKind \<Rightarrow> PropertyValue \<Rightarrow> Outcome"
  where
  "MemSafeContainerRule C P K V =
     (let bIsContainer = (CastField_FArrayProperty K \<or> CastField_FSetProperty K
                          \<or> CastField_FMapProperty K \<or> CastField_FOptionalProperty K)
      in if \<not> bIsContainer then Fatal (ContainerNonContainer C P)
         else checkf (ValidateMemSafeContainer K V) (ContainerViolation C P))"

subsection \<open>ID and the sign rules\<close>

definition INDEX_NONE_As :: "PropertyKind \<Rightarrow> int" where
  \<comment> \<open>\<open>INDEX_NONE\<close> (\<open>-1\<close>) after the usual arithmetic conversions against the value type\<close>
  "INDEX_NONE_As K =
     (if K = FUInt32Property then 2 ^ 32 - 1 else if K = FUInt64Property then 2 ^ 64 - 1 else - 1)"

definition IDRule :: "string \<Rightarrow> string \<Rightarrow> PropertyKind \<Rightarrow> PropertyValue \<Rightarrow> Outcome" where
  "IDRule C P K V =
     checkResult (TestIntegerProperty K V (\<lambda>T x. Inr (x \<noteq> INDEX_NONE_As T))) (IDViolation C P)"

definition Gte0Rule :: "string \<Rightarrow> string \<Rightarrow> PropertyKind \<Rightarrow> PropertyValue \<Rightarrow> Outcome" where
  "Gte0Rule C P K V =
     checkResult (TestArithmeticProperty K V (\<lambda>T x. Inr (x \<ge> 0)) (\<lambda>x. Inr (x \<ge> 0)))
       (Gte0Violation C P)"

definition Gt0Rule :: "string \<Rightarrow> string \<Rightarrow> PropertyKind \<Rightarrow> PropertyValue \<Rightarrow> Outcome" where
  "Gt0Rule C P K V =
     checkResult (TestArithmeticProperty K V (\<lambda>T x. Inr (x > 0)) (\<lambda>x. Inr (x > 0)))
       (Gt0Violation C P)"

definition Lte0Rule :: "string \<Rightarrow> string \<Rightarrow> PropertyKind \<Rightarrow> PropertyValue \<Rightarrow> Outcome" where
  "Lte0Rule C P K V =
     checkResult (TestArithmeticProperty K V (\<lambda>T x. Inr (x \<le> 0)) (\<lambda>x. Inr (x \<le> 0)))
       (Lte0Violation C P)"

definition Lt0Rule :: "string \<Rightarrow> string \<Rightarrow> PropertyKind \<Rightarrow> PropertyValue \<Rightarrow> Outcome" where
  "Lt0Rule C P K V =
     checkResult (TestArithmeticProperty K V (\<lambda>T x. Inr (x < 0)) (\<lambda>x. Inr (x < 0)))
       (Lt0Violation C P)"

subsection \<open>Range\<close>

fun SanitizeNumberString :: "string \<Rightarrow> string" where
  "SanitizeNumberString [] = []"
| "SanitizeNumberString (C # In) =
     (if FChar_IsWhitespace C then SanitizeNumberString In
      else if C = CHR '','' \<or> C = CHR ''_'' then SanitizeNumberString In
      else if FChar_IsDigit C \<or> C = CHR ''.'' \<or> C = CHR ''+'' \<or> C = CHR ''-''
              \<or> C = CHR ''e'' \<or> C = CHR ''E''
        then C # SanitizeNumberString In
      else SanitizeNumberString In)"

record RangeBounds =
  bLowerInclusive :: bool
  bUpperInclusive :: bool
  LowerTrimmed :: string
  UpperTrimmed :: string

definition ParseRange :: "string \<Rightarrow> string \<Rightarrow> string \<Rightarrow> Failure + RangeBounds" where
  \<comment> \<open>the first half of the Range branch: from the rule text to the sanitized bounds\<close>
  "ParseRange C P InvariantRule =
     (let RangeSpec = TrimStart (Mid InvariantRule 5) in
      if RangeSpec = [] \<or> (hd RangeSpec \<noteq> CHR ''('' \<and> hd RangeSpec \<noteq> CHR ''['')
        then Inl RangeNoEntry
      else if \<not> (length RangeSpec \<ge> 2) then Inl (RangeInvalidFormat C P)
      else
        (let LowerBracket = hd RangeSpec;
             UpperBracket = last RangeSpec;
             Inner = MidCount RangeSpec 1 (length RangeSpec - 2);
             Parts = ParseIntoArray Inner (CHR '','') True
         in if length Parts \<noteq> 2 then Inl (RangeNotTwoBounds C P)
            else Inr \<lparr> bLowerInclusive = (LowerBracket = CHR ''[''),
                       bUpperInclusive = (UpperBracket = CHR '']''),
                       LowerTrimmed = SanitizeNumberString (TrimStartAndEnd (Parts ! 0)),
                       UpperTrimmed = SanitizeNumberString (TrimStartAndEnd (Parts ! 1)) \<rparr>))"

definition RangeIntegerPredicate :: "RangeBounds \<Rightarrow> PropertyKind \<Rightarrow> int \<Rightarrow> Failure + bool" where
  "RangeIntegerPredicate B T V =
     (if IsSigned T then
        (let LowerI = Atoi64 (LowerTrimmed B); UpperI = Atoi64 (UpperTrimmed B) in
         if \<not> (LowerI \<le> UpperI) then Inl RangeBoundsOrder
         else
           (let LowerBound = static_cast T LowerI;
                UpperBound = static_cast T UpperI;
                LowerOk = (if bLowerInclusive B then V \<ge> LowerBound else V > LowerBound);
                UpperOk = (if bUpperInclusive B then V \<le> UpperBound else V < UpperBound)
            in Inr (LowerOk \<and> UpperOk)))
      else
        (let LowerI = Strtoui64 (LowerTrimmed B); UpperI = Strtoui64 (UpperTrimmed B);
             LowerBound = static_cast T LowerI;
             UpperBound = static_cast T UpperI;
             LowerOk = (if bLowerInclusive B then V \<ge> LowerBound else V > LowerBound);
             UpperOk = (if bUpperInclusive B then V \<le> UpperBound else V < UpperBound)
         in Inr (LowerOk \<and> UpperOk)))"

definition Clamp :: "real \<Rightarrow> real \<Rightarrow> real \<Rightarrow> real" where
  "Clamp X MinV MaxV = (if X < MinV then MinV else if X < MaxV then X else MaxV)"

definition RangeFloatPredicate ::
  "(real \<Rightarrow> real) \<Rightarrow> real \<Rightarrow> real \<Rightarrow> bool \<Rightarrow> bool \<Rightarrow> real \<Rightarrow> bool"
  where
  "RangeFloatPredicate rnd LowerD UpperD bLowerIncl bUpperIncl Value =
     (let Scale = max 1 (max \<bar>LowerD\<bar> (max \<bar>UpperD\<bar> \<bar>Value\<bar>));
          Eps = Clamp (rnd (Scale * rnd (1 / 10 ^ 6))) (rnd (1 / 10 ^ 10)) (rnd (1 / 10 ^ 3));
          LowerOk = (if bLowerIncl then Value \<ge> rnd (LowerD - Eps)
                     else Value > rnd (LowerD - Eps));
          UpperOk = (if bUpperIncl then Value \<le> rnd (UpperD + Eps)
                     else Value < rnd (UpperD + Eps))
      in LowerOk \<and> UpperOk)"

definition RangeRule ::
  "(real \<Rightarrow> real) \<Rightarrow> string \<Rightarrow> string \<Rightarrow> string \<Rightarrow> PropertyKind \<Rightarrow> PropertyValue \<Rightarrow> Outcome"
  where
  "RangeRule rnd C P InvariantRule K V =
     (case ParseRange C P InvariantRule of
        Inl F \<Rightarrow> Fatal F
      | Inr B \<Rightarrow>
          (let bBoundsHaveFloatMarker =
                 (Contains (LowerTrimmed B) ''.'' \<or> Contains (LowerTrimmed B) ''e''
                  \<or> Contains (LowerTrimmed B) ''E'' \<or> Contains (UpperTrimmed B) ''.''
                  \<or> Contains (UpperTrimmed B) ''e'' \<or> Contains (UpperTrimmed B) ''E'')
           in if IsIntegerKind K then
                (if bBoundsHaveFloatMarker then Fatal (RangeIntegerBounds C P)
                 else checkResult (TestIntegerProperty K V (RangeIntegerPredicate B))
                        (RangeViolation C P))
              else if K = FFloatProperty \<or> K = FDoubleProperty then
                (let LowerD = Atod rnd (LowerTrimmed B); UpperD = Atod rnd (UpperTrimmed B) in
                 if \<not> (LowerD \<le> UpperD) then Fatal (RangeBoundsOrderOn C P)
                 else checkResult
                        (TestArithmeticProperty K V
                           (\<lambda>T x. Inr (RangeFloatPredicate rnd LowerD UpperD
                                         (bLowerInclusive B) (bUpperInclusive B) (real_of_int x)))
                           (\<lambda>x. Inr (RangeFloatPredicate rnd LowerD UpperD
                                       (bLowerInclusive B) (bUpperInclusive B) x)))
                        (RangeViolation C P))
              else Fatal (RangeNonArithmetic C P)))"

subsection \<open>name, True and False\<close>

definition NameRule :: "string \<Rightarrow> string \<Rightarrow> PropertyKind \<Rightarrow> PropertyValue \<Rightarrow> Outcome" where
  "NameRule C P K V =
     (if K = FNameProperty then checkf (\<not> FName_IsNone (GetName V)) (NameViolation C P)
      else Fatal (NameNonFName C P))"

definition TrueRule :: "string \<Rightarrow> string \<Rightarrow> PropertyKind \<Rightarrow> PropertyValue \<Rightarrow> Outcome" where
  "TrueRule C P K V =
     (if K = FBoolProperty then checkf (GetBool V) (TrueViolation C P)
      else Fatal (TrueNonBool C P))"

definition FalseRule :: "string \<Rightarrow> string \<Rightarrow> PropertyKind \<Rightarrow> PropertyValue \<Rightarrow> Outcome" where
  "FalseRule C P K V =
     (if K = FBoolProperty then checkf (\<not> GetBool V) (FalseViolation C P)
      else Fatal (FalseNonBool C P))"

subsection \<open>Contract* and custom predicates\<close>

text \<open>
  The pass records every \<open>ProcessEvent\<close> it makes as a call (object, function name), so that
  what was invoked before a failure is part of the result. \<open>Contract*\<close> re-enters
  \<open>CheckClassInvariants\<close>; the rule takes the re-entrant call as \<open>recurse\<close>.
\<close>

type_synonym Call = "addr \<times> string"

type_synonym Result = "Outcome \<times> Call list"

definition ContractRule ::
  "(addr option \<Rightarrow> Result option) \<Rightarrow> Heap \<Rightarrow> addr \<Rightarrow> string \<Rightarrow> string \<Rightarrow> PropertyKind
     \<Rightarrow> PropertyValue \<Rightarrow> Result option"
  where
  "ContractRule recurse H Object C P K V =
     (if CastField_FObjectProperty K then
        (case GetObject V of
           None \<Rightarrow> Some (NullDereference, [])
         | Some Val \<Rightarrow>
             if \<not> (ClassName (ObjClass (H Val)) \<noteq> ClassName (ObjClass (H Object)))
               then Some (Fatal ContractSameClass, [])
             else if \<not> IsValid H (Some Val) then Some (Fatal (ContractViolation C P), [])
             else recurse (Some Val))
      else Some (Fatal (ContractNonPointer C P), []))"

definition CustomRule :: "Heap \<Rightarrow> addr \<Rightarrow> string \<Rightarrow> string \<Rightarrow> string \<Rightarrow> Result" where
  "CustomRule H Object C P InvariantRule =
     (case FindFunctionByName (ObjClass (H Object)) InvariantRule of
        None \<Rightarrow> (Fatal (FunctionNotFound InvariantRule), [])
      | Some F \<Rightarrow>
          if \<not> FUNC_Const F then (Fatal (FunctionNotConst InvariantRule), [])
          else if NumParms F \<noteq> 1 then (Fatal (FunctionBadParms InvariantRule), [])
          else
            (let Calls = [(Object, FuncName F)] in
             if ReturnProperty F \<noteq> Some FBoolProperty
               then (Fatal (FunctionNotBool InvariantRule), Calls)
             else (checkf (ObjReturns (H Object) (FuncName F))
                     (CustomCheckFailed C P InvariantRule), Calls)))"

definition CheckProperty ::
  "(real \<Rightarrow> real) \<Rightarrow> (addr option \<Rightarrow> Result option) \<Rightarrow> Heap \<Rightarrow> addr \<Rightarrow> FProperty
     \<Rightarrow> Result option"
  where
  \<comment> \<open>the body of the loop over the properties of the class\<close>
  "CheckProperty rnd recurse H Object Prop =
     (case InvariantMeta Prop of
        None \<Rightarrow> Some (Passed, [])
      | Some InvariantRule \<Rightarrow>
          (let C = ClassName (ObjClass (H Object));
               P = PropName Prop;
               K = Kind Prop;
               V = ObjValues (H Object) P
           in if FString_Equals InvariantRule ''MemSafe'' then Some (MemSafeRule C P K V, [])
              else if FString_Equals InvariantRule ''MemSafeContainer''
                then Some (MemSafeContainerRule C P K V, [])
              else if FString_Equals InvariantRule ''ID'' then Some (IDRule C P K V, [])
              else if FString_Equals InvariantRule ''Gte0'' then Some (Gte0Rule C P K V, [])
              else if FString_Equals InvariantRule ''Gt0'' then Some (Gt0Rule C P K V, [])
              else if FString_Equals InvariantRule ''Lte0'' then Some (Lte0Rule C P K V, [])
              else if FString_Equals InvariantRule ''Lt0'' then Some (Lt0Rule C P K V, [])
              else if StartsWith InvariantRule ''Range''
                then Some (RangeRule rnd C P InvariantRule K V, [])
              else if FString_Equals InvariantRule ''name'' then Some (NameRule C P K V, [])
              else if FString_Equals InvariantRule ''True'' then Some (TrueRule C P K V, [])
              else if FString_Equals InvariantRule ''False'' then Some (FalseRule C P K V, [])
              else if FString_Equals InvariantRule ''Contract*''
                then ContractRule recurse H Object C P K V
              else Some (CustomRule H Object C P InvariantRule)))"

definition CheckFunction :: "Heap \<Rightarrow> addr \<Rightarrow> UFunction \<Rightarrow> Result" where
  \<comment> \<open>the body of the loop over the functions of the class\<close>
  "CheckFunction H Object F =
     (if \<not> HasInvariantMeta F then (Passed, [])
      else
        (let FunctionName = FuncName F; C = ClassName (ObjClass (H Object)) in
         if \<not> FUNC_Const F then (Fatal (MethodNotConst FunctionName C), [])
         else if NumParms F \<noteq> 1 then (Fatal (MethodBadParms FunctionName C), [])
         else if ReturnProperty F \<noteq> Some FBoolProperty
           then (Fatal (MethodNotBool FunctionName C), [])
         else (checkf (ObjReturns (H Object) FunctionName) (MethodCheckFailed FunctionName C),
               [(Object, FunctionName)])))"

section \<open>The pass\<close>

text \<open>
  Both loops stop at the first outcome that is not \<open>Passed\<close>. The recursion through
  \<open>Contract*\<close> members need not end (a cycle of contract members through two classes), so
  \<open>CheckClassInvariants\<close> takes fuel, one unit per nested call; \<open>None\<close> means the fuel ran
  out.
\<close>

fun CheckProperties ::
  "(real \<Rightarrow> real) \<Rightarrow> (addr option \<Rightarrow> Result option) \<Rightarrow> Heap \<Rightarrow> addr \<Rightarrow> FProperty list
     \<Rightarrow> Result option"
  where
  "CheckProperties rnd recurse H Object [] = Some (Passed, [])"
| "CheckProperties rnd recurse H Object (Prop # Props) =
     (case CheckProperty rnd recurse H Object Prop of
        None \<Rightarrow> None
      | Some (Passed, Calls) \<Rightarrow>
          (case CheckProperties rnd recurse H Object Props of
             None \<Rightarrow> None
           | Some (R, Calls') \<Rightarrow> Some (R, Calls @ Calls'))
      | Some (R, Calls) \<Rightarrow> Some (R, Calls))"

fun CheckFunctions :: "Heap \<Rightarrow> addr \<Rightarrow> UFunction list \<Rightarrow> Result" where
  "CheckFunctions H Object [] = (Passed, [])"
| "CheckFunctions H Object (F # Fs) =
     (case CheckFunction H Object F of
        (Passed, Calls) \<Rightarrow>
          (case CheckFunctions H Object Fs of (R, Calls') \<Rightarrow> (R, Calls @ Calls'))
      | (R, Calls) \<Rightarrow> (R, Calls))"

primrec CheckClassInvariants ::
  "(real \<Rightarrow> real) \<Rightarrow> nat \<Rightarrow> Heap \<Rightarrow> addr option \<Rightarrow> Result option"
  where
  "CheckClassInvariants rnd 0 H Object = None"
| "CheckClassInvariants rnd (Suc fuel) H Object =
     (case Object of
        None \<Rightarrow> Some (Fatal PrecondObject, [])
      | Some Obj \<Rightarrow>
          (case CheckProperties rnd (CheckClassInvariants rnd fuel H) H Obj
                  (Properties (ObjClass (H Obj))) of
             None \<Rightarrow> None
           | Some (Passed, Calls) \<Rightarrow>
               (case CheckFunctions H Obj (Functions (ObjClass (H Obj))) of
                  (R, Calls') \<Rightarrow> Some (R, Calls @ Calls'))
           | Some (R, Calls) \<Rightarrow> Some (R, Calls)))"

section \<open>Example classes and objects\<close>

definition TaggedProperty :: "string \<Rightarrow> PropertyKind \<Rightarrow> string \<Rightarrow> FProperty" where
  "TaggedProperty n K tag = \<lparr> PropName = n, Kind = K, InvariantMeta = Some tag \<rparr>"

definition ClassWith :: "string \<Rightarrow> FProperty list \<Rightarrow> UFunction list \<Rightarrow> UClass" where
  "ClassWith n Props Funcs = \<lparr> ClassName = n, Properties = Props, Functions = Funcs \<rparr>"

definition Instance :: "UClass \<Rightarrow> PropertyValue \<Rightarrow> UObject" where
  \<comment> \<open>a live object all of whose properties hold the same value\<close>
  "Instance C V =
     \<lparr> ObjClass = C, ObjIsValid = True, ObjValues = (\<lambda>n. V), ObjReturns = (\<lambda>n. True) \<rparr>"


definition NonConstPredicate :: UFunction where
  \<comment> \<open>\<open>bool IsReady()\<close>, tagged as an invariant, not declared const\<close>
  "NonConstPredicate =
     \<lparr> FuncName = ''IsReady'', HasInvariantMeta = True, FUNC_Const = False, NumParms = 1,
       ReturnProperty = Some FBoolProperty \<rparr>"

definition ConstPredicate :: UFunction where
  \<comment> \<open>\<open>bool IsAlive() const\<close>, tagged as an invariant\<close>
  "ConstPredicate =
     \<lparr> FuncName = ''IsAlive'', HasInvariantMeta = True, FUNC_Const = True, NumParms = 1,
       ReturnProperty = Some FBoolProperty \<rparr>"

section \<open>Notions used in the statements\<close>

definition IsNumericKind :: "PropertyKind \<Rightarrow> bool" where
  \<comment> \<open>the kinds \<open>TestArithmeticProperty\<close> has a branch for\<close>
  "IsNumericKind K = (IsIntegerKind K \<or> K = FFloatProperty \<or> K = FDoubleProperty)"

definition IsRuleKeyword :: "string \<Rightarrow> bool" where
  \<comment> \<open>the tag takes one of the branches before the final \<open>else\<close> of the dispatch chain\<close>
  "IsRuleKeyword t =
     (FString_Equals t ''MemSafe'' \<or> FString_Equals t ''MemSafeContainer''
      \<or> FString_Equals t ''ID'' \<or> FString_Equals t ''Gte0'' \<or> FString_Equals t ''Gt0''
      \<or> FString_Equals t ''Lte0'' \<or> FString_Equals t ''Lt0'' \<or> StartsWith t ''Range''
      \<or> FString_Equals t ''name'' \<or> FString_Equals t ''True'' \<or> FString_Equals t ''False''
      \<or> FString_Equals t ''Contract*'')"

definition ConstCall :: "Heap \<Rightarrow> Call \<Rightarrow> bool" where
  \<comment> \<open>the call invokes a function of the object's class that is declared const\<close>
  "ConstCall H c =
     (\<exists>F \<in> set (Functions (ObjClass (H (fst c)))). FuncName F = snd c \<and> FUNC_Const F)"

section \<open>Evaluation lemmas\<close>

lemmas string_defs =
  FChar_IsWhitespace_def FChar_IsDigit_def FChar_ToLower_def FString_Equals_def StartsWith_def
  Mid_def MidCount_def TrimStart_def TrimStartAndEnd_def ParseIntoArray_def

lemmas number_defs =
  Atoi64_def Strtoui64_def IsNegative_def SkipSign_def INT64_MIN_def INT64_MAX_def UINT64_MAX_def

lemmas range_defs =
  RangeRule_def ParseRange_def TestIntegerProperty_def IsIntegerKind_def RangeIntegerPredicate_def
  IsSigned_def static_cast_def BitWidth_def checkResult_def checkf_def

lemmas example_defs = TaggedProperty_def ClassWith_def Instance_def

lemma Range_integer_boundaries:
  "RangeRule rnd C P ''Range[0,10]'' FIntProperty (IntValue 0) = Passed"
  "RangeRule rnd C P ''Range[0,10]'' FIntProperty (IntValue 10) = Passed"
  "RangeRule rnd C P ''Range[0,10]'' FIntProperty (IntValue (- 1)) = Fatal (RangeViolation C P)"
  "RangeRule rnd C P ''Range[0,10]'' FIntProperty (IntValue 11) = Fatal (RangeViolation C P)"
  "RangeRule rnd C P ''Range(0,10)'' FIntProperty (IntValue 0) = Fatal (RangeViolation C P)"
  "RangeRule rnd C P ''Range(0,10)'' FIntProperty (IntValue 10) = Fatal (RangeViolation C P)"
  by (simp_all add: range_defs string_defs number_defs)

section \<open>Range parsing\<close>

text \<open>
  C2 (as amended). The range text \<open>[0,100)\<close> parses to an inclusive lower bound 0 and an
  exclusive upper bound 100. The text \<open>(1_000, 2,000]\<close> has three comma-separated pieces, so
  the split step rejects it with the two-bounds configuration error; written with
  underscores only, \<open>(1_000, 2_000]\<close> parses to the bounds 1000 and 2000.
\<close>

theorem C2_range_parsing:
  "ParseRange C P ''Range[0,100)'' =
     Inr \<lparr> bLowerInclusive = True, bUpperInclusive = False,
           LowerTrimmed = ''0'', UpperTrimmed = ''100'' \<rparr>
   \<and> Atoi64 ''0'' = 0 \<and> Atoi64 ''100'' = 100
   \<and> ParseRange C P ''Range(1_000, 2,000]'' = Inl (RangeNotTwoBounds C P)
   \<and> TierOf (RangeNotTwoBounds C P) = ConfigurationError
   \<and> ParseRange C P ''Range(1_000, 2_000]'' =
       Inr \<lparr> bLowerInclusive = False, bUpperInclusive = True,
             LowerTrimmed = ''1000'', UpperTrimmed = ''2000'' \<rparr>
   \<and> Atoi64 ''1000'' = 1000 \<and> Atoi64 ''2000'' = 2000"
  by (simp add: ParseRange_def string_defs number_defs)

text \<open>
  C2, the claim as stated fails: on an \<open>int32\<close> property holding 1500 and tagged
  \<open>Range(1_000, 2,000]\<close> the interior splits into \<open>1_000\<close>, \<open> 2\<close> and \<open>000\<close>, and the
  pass stops with the two-bounds failure instead of accepting the value.
\<close>

theorem C2_counterexample:
  "ParseIntoArray ''1_000, 2,000'' (CHR '','') True = [''1_000'', '' 2'', ''000'']
   \<and> RangeRule Exact ''Obj'' ''Field'' ''Range(1_000, 2,000]'' FIntProperty (IntValue 1500)
       = Fatal (RangeNotTwoBounds ''Obj'' ''Field'')
   \<and> CheckClassInvariants Exact (Suc 0)
        (\<lambda>a. Instance
                (ClassWith ''Obj''
                   [TaggedProperty ''Field'' FIntProperty ''Range(1_000, 2,000]''] [])
                (IntValue 1500))
        (Some 1)
       = Some (Fatal (RangeNotTwoBounds ''Obj'' ''Field''), [])"
  by (simp add: CheckProperty_def example_defs range_defs string_defs)

text \<open>
  C4, at the failing input: the closing bracket is never checked. The rule text
  \<open>Range[0,10}\<close> is accepted, its last character read as an exclusive upper bracket: the
  value 5 passes and the value 10 is a range violation, not a malformed-syntax failure.
\<close>

theorem C4_closing_bracket_unchecked:
  "ParseRange ''Obj'' ''Field'' ''Range[0,10}'' =
     Inr \<lparr> bLowerInclusive = True, bUpperInclusive = False,
           LowerTrimmed = ''0'', UpperTrimmed = ''10'' \<rparr>
   \<and> CheckClassInvariants rnd (Suc 0)
        (\<lambda>a. Instance (ClassWith ''Obj'' [TaggedProperty ''Field'' FIntProperty ''Range[0,10}''] [])
                (IntValue 5))
        (Some 1)
       = Some (Passed, [])
   \<and> CheckClassInvariants rnd (Suc 0)
        (\<lambda>a. Instance (ClassWith ''Obj'' [TaggedProperty ''Field'' FIntProperty ''Range[0,10}''] [])
                (IntValue 10))
        (Some 1)
       = Some (Fatal (RangeViolation ''Obj'' ''Field''), [])
   \<and> ParseRange ''Obj'' ''Field'' ''Range{0,10]'' = Inl RangeNoEntry"
  by (simp add: CheckProperty_def example_defs range_defs string_defs number_defs)

section \<open>Integer ranges\<close>

text \<open>
  C7, at the failing input: a \<open>uint8\<close> property tagged \<open>Range[10,0]\<close>. The unsigned branch
  of the predicate has no check of the order of the bounds, so the inverted range is
  reported as a range violation of the value; the signed branch stops with the
  bounds-order failure on the same rule text.
\<close>

theorem C7_unsigned_bounds_order_unchecked:
  "RangeRule rnd ''Obj'' ''Level'' ''Range[10,0]'' FByteProperty (IntValue 5)
     = Fatal (RangeViolation ''Obj'' ''Level'')
   \<and> TierOf (RangeViolation ''Obj'' ''Level'') = DataViolation
   \<and> RangeRule rnd ''Obj'' ''Level'' ''Range[10,0]'' FIntProperty (IntValue 5) = Fatal RangeBoundsOrder
   \<and> TierOf RangeBoundsOrder = ConfigurationError
   \<and> CheckClassInvariants rnd (Suc 0)
        (\<lambda>a. Instance (ClassWith ''Obj'' [TaggedProperty ''Level'' FByteProperty ''Range[10,0]''] [])
                (IntValue 5))
        (Some 1)
       = Some (Fatal (RangeViolation ''Obj'' ''Level''), [])"
  by (simp add: CheckProperty_def example_defs range_defs string_defs number_defs)

section \<open>Optionals under MemSafeContainer\<close>

text \<open>
  C3, at the failing input: an optional of object pointers that is set and holds
  \<open>nullptr\<close>. The optional branch of \<open>ValidateMemSafeContainer\<close> only tests the address of
  the stored value, which is never null when the optional is set, so every set optional is
  valid; the pointer-validity helper, which rejects the null pointer and is applied to
  every array element, is not applied to the contained value.
\<close>

theorem C3_set_optional_always_valid:
  "ValidateMemSafeContainer (FOptionalProperty K) (OptionalValue (Some V))
   \<and> \<not> IsPointerPropertyValueValid (FObjectProperty ''UObject'') (ObjectValue None)
   \<and> MemSafeContainerRule ''Obj'' ''Target'' (FOptionalProperty (FObjectProperty ''UObject''))
        (OptionalValue (Some (ObjectValue None))) = Passed
   \<and> MemSafeContainerRule ''Obj'' ''Target'' (FArrayProperty (FObjectProperty ''UObject''))
        (ArrayValue [ObjectValue None]) = Fatal (ContainerViolation ''Obj'' ''Target'')
   \<and> ValidateMemSafeContainer (FOptionalProperty K) (OptionalValue None)
   \<and> CheckClassInvariants rnd (Suc 0)
        (\<lambda>a. Instance
                (ClassWith ''Obj''
                   [TaggedProperty ''Target'' (FOptionalProperty (FObjectProperty ''UObject''))
                      ''MemSafeContainer''] [])
                (OptionalValue (Some (ObjectValue None))))
        (Some 1)
       = Some (Passed, [])"
  by (simp add: CheckProperty_def MemSafeContainerRule_def IsPointerLikeProperty_def checkf_def
        example_defs string_defs)

section \<open>Soft references\<close>

text \<open>
  C6, at the failing input: a soft reference with a non-empty path whose target is not
  loaded. On the element path of \<open>MemSafeContainer\<close> a soft reference (object or class) is
  valid iff it is not the empty path. On the direct \<open>MemSafe\<close> path the soft pointer is
  compared with \<open>nullptr\<close>, so the rule passes iff the reference currently resolves to a
  loaded object: the pending reference is valid as a container element and a violation as
  a \<open>MemSafe\<close> property.
\<close>

theorem C6_soft_reference_paths_differ:
  "IsPointerPropertyValueValid FSoftObjectProperty (SoftValue s) = (\<not> FSoftObjectPtr_IsNull s)
   \<and> IsPointerPropertyValueValid FSoftClassProperty (SoftValue s) = (\<not> FSoftObjectPtr_IsNull s)
   \<and> MemSafeRule C P FSoftObjectProperty (SoftValue s)
       = checkf (FSoftObjectPtr_IsValid s) (MemSafeViolation C P)
   \<and> MemSafeRule C P FSoftClassProperty (SoftValue s)
       = checkf (FSoftObjectPtr_IsValid s) (MemSafeViolation C P)
   \<and> \<not> FSoftObjectPtr_IsNull SoftPending
   \<and> IsPointerPropertyValueValid FSoftObjectProperty (SoftValue SoftPending)
   \<and> MemSafeContainerRule C P (FArrayProperty FSoftObjectProperty)
        (ArrayValue [SoftValue SoftPending]) = Passed
   \<and> MemSafeRule C P FSoftObjectProperty (SoftValue SoftPending) = Fatal (MemSafeViolation C P)
   \<and> CheckClassInvariants rnd (Suc 0)
        (\<lambda>a. Instance (ClassWith ''Obj'' [TaggedProperty ''Asset'' FSoftObjectProperty ''MemSafe''] [])
                (SoftValue SoftPending))
        (Some 1)
       = Some (Fatal (MemSafeViolation ''Obj'' ''Asset''), [])
   \<and> CheckClassInvariants rnd (Suc 0)
        (\<lambda>a. Instance
                (ClassWith ''Obj''
                   [TaggedProperty ''Assets'' (FArrayProperty FSoftObjectProperty)
                      ''MemSafeContainer''] [])
                (ArrayValue [SoftValue SoftPending]))
        (Some 1)
       = Some (Passed, [])"
  by (simp add: CheckProperty_def MemSafeRule_def MemSafeContainerRule_def
        IsPointerLikeProperty_def FSoftObjectPtr_NotNullptr_def FSoftObjectPtr_IsNull_def
        FSoftObjectPtr_IsValid_def checkf_def example_defs string_defs)

section \<open>Keyword dispatch\<close>

text \<open>
  A tag that equals a keyword up to case takes the branch of that keyword: the earlier
  comparisons of the chain fail for it as they fail for the keyword itself.
\<close>

lemma FString_Equals_left: "FString_Equals t k \<Longrightarrow> FString_Equals t k' = FString_Equals k k'"
  by (simp add: FString_Equals_def)

lemma StartsWith_left: "FString_Equals t k \<Longrightarrow> StartsWith t p = StartsWith k p"
  unfolding StartsWith_def FString_Equals_def by (metis take_map)

lemmas keyword_defs = FString_Equals_def StartsWith_def FChar_ToLower_def

lemma dispatch_ID:
  assumes "InvariantMeta Prop = Some t" and "FString_Equals t ''ID''"
  shows "CheckProperty rnd recurse H Object Prop =
           Some (IDRule (ClassName (ObjClass (H Object))) (PropName Prop) (Kind Prop)
                   (ObjValues (H Object) (PropName Prop)), [])"
proof -
  note eq = FString_Equals_left [OF assms(2)] and sw = StartsWith_left [OF assms(2)]
  show ?thesis
    by (simp only: CheckProperty_def assms(1) option.case Let_def eq sw) (simp add: keyword_defs)
qed

lemma dispatch_Gte0:
  assumes "InvariantMeta Prop = Some t" and "FString_Equals t ''Gte0''"
  shows "CheckProperty rnd recurse H Object Prop =
           Some (Gte0Rule (ClassName (ObjClass (H Object))) (PropName Prop) (Kind Prop)
                   (ObjValues (H Object) (PropName Prop)), [])"
proof -
  note eq = FString_Equals_left [OF assms(2)] and sw = StartsWith_left [OF assms(2)]
  show ?thesis
    by (simp only: CheckProperty_def assms(1) option.case Let_def eq sw) (simp add: keyword_defs)
qed

lemma dispatch_Gt0:
  assumes "InvariantMeta Prop = Some t" and "FString_Equals t ''Gt0''"
  shows "CheckProperty rnd recurse H Object Prop =
           Some (Gt0Rule (ClassName (ObjClass (H Object))) (PropName Prop) (Kind Prop)
                   (ObjValues (H Object) (PropName Prop)), [])"
proof -
  note eq = FString_Equals_left [OF assms(2)] and sw = StartsWith_left [OF assms(2)]
  show ?thesis
    by (simp only: CheckProperty_def assms(1) option.case Let_def eq sw) (simp add: keyword_defs)
qed

lemma dispatch_Lte0:
  assumes "InvariantMeta Prop = Some t" and "FString_Equals t ''Lte0''"
  shows "CheckProperty rnd recurse H Object Prop =
           Some (Lte0Rule (ClassName (ObjClass (H Object))) (PropName Prop) (Kind Prop)
                   (ObjValues (H Object) (PropName Prop)), [])"
proof -
  note eq = FString_Equals_left [OF assms(2)] and sw = StartsWith_left [OF assms(2)]
  show ?thesis
    by (simp only: CheckProperty_def assms(1) option.case Let_def eq sw) (simp add: keyword_defs)
qed

lemma dispatch_Lt0:
  assumes "InvariantMeta Prop = Some t" and "FString_Equals t ''Lt0''"
  shows "CheckProperty rnd recurse H Object Prop =
           Some (Lt0Rule (ClassName (ObjClass (H Object))) (PropName Prop) (Kind Prop)
                   (ObjValues (H Object) (PropName Prop)), [])"
proof -
  note eq = FString_Equals_left [OF assms(2)] and sw = StartsWith_left [OF assms(2)]
  show ?thesis
    by (simp only: CheckProperty_def assms(1) option.case Let_def eq sw) (simp add: keyword_defs)
qed

lemma dispatch_Name:
  assumes "InvariantMeta Prop = Some t" and "FString_Equals t ''Name''"
  shows "CheckProperty rnd recurse H Object Prop =
           Some (NameRule (ClassName (ObjClass (H Object))) (PropName Prop) (Kind Prop)
                   (ObjValues (H Object) (PropName Prop)), [])"
proof -
  note eq = FString_Equals_left [OF assms(2)] and sw = StartsWith_left [OF assms(2)]
  show ?thesis
    by (simp only: CheckProperty_def assms(1) option.case Let_def eq sw) (simp add: keyword_defs)
qed


lemma dispatch_Custom:
  assumes "InvariantMeta Prop = Some t" and "\<not> IsRuleKeyword t"
  shows "CheckProperty rnd recurse H Object Prop =
           Some (CustomRule H Object (ClassName (ObjClass (H Object))) (PropName Prop) t)"
  using assms by (simp add: CheckProperty_def IsRuleKeyword_def)

lemma CheckProperties_append:
  "CheckProperties rnd recurse H Object (Pre @ Post) =
     (case CheckProperties rnd recurse H Object Pre of
        None \<Rightarrow> None
      | Some (Passed, Calls) \<Rightarrow>
          (case CheckProperties rnd recurse H Object Post of
             None \<Rightarrow> None
           | Some (R, Calls') \<Rightarrow> Some (R, Calls @ Calls'))
      | Some (R, Calls) \<Rightarrow> Some (R, Calls))"
  by (induction Pre) (auto split: option.splits Outcome.splits prod.splits)

lemma CheckProperties_Passed:
  "CheckProperties rnd recurse H Object Props = Some (Passed, Calls) \<Longrightarrow> Prop \<in> set Props
     \<Longrightarrow> \<exists>Cs. CheckProperty rnd recurse H Object Prop = Some (Passed, Cs)"
  by (induction Props arbitrary: Calls) (auto split: option.splits Outcome.splits prod.splits)

lemma CheckClassInvariants_Passed:
  assumes "CheckClassInvariants rnd fuel H (Some Obj) = Some (Passed, Calls)"
      and "Prop \<in> set (Properties (ObjClass (H Obj)))"
  shows "\<exists>n Cs. CheckProperty rnd (CheckClassInvariants rnd n H) H Obj Prop = Some (Passed, Cs)"
proof (cases fuel)
  case 0
  then show ?thesis using assms(1) by simp
next
  case (Suc n)
  then obtain Cs where "CheckProperties rnd (CheckClassInvariants rnd n H) H Obj
                          (Properties (ObjClass (H Obj))) = Some (Passed, Cs)"
    using assms(1) by (auto split: option.splits Outcome.splits prod.splits)
  then show ?thesis using CheckProperties_Passed assms(2) by blast
qed

text \<open>
  C5 (as amended). The dispatcher compares the tag with the fixed keywords ignoring case.
  The keyword of the identifier rule is written \<open>name\<close> in the code, so a property of
  identifier kind tagged \<open>Name\<close> (or any other casing of it) gets the empty-identifier
  check: the pass fails with the name violation iff the value is \<open>NAME_None\<close>, and the
  custom-predicate lookup is not reached.
\<close>

theorem C5_name_keyword:
  assumes "InvariantMeta Prop = Some t" and "FString_Equals t ''Name''"
      and "Kind Prop = FNameProperty"
      and "ObjValues (H Object) (PropName Prop) = NameValue n"
  shows "CheckProperty rnd recurse H Object Prop =
           Some (if n = NAME_None
                 then Fatal (NameViolation (ClassName (ObjClass (H Object))) (PropName Prop))
                 else Passed, [])"
  using assms(3,4)
  by (simp add: dispatch_Name [OF assms(1,2)] NameRule_def FName_IsNone_def checkf_def)

theorem C5_name_keyword_witness:
  "FString_Equals ''Name'' ''Name''
   \<and> CheckProperty Exact (\<lambda>p. None)
        (\<lambda>a. Instance (ClassWith ''Obj'' [TaggedProperty ''Label'' FNameProperty ''Name''] [])
                (NameValue NAME_None))
        1 (TaggedProperty ''Label'' FNameProperty ''Name'')
       = Some (Fatal (NameViolation ''Obj'' ''Label''), [])"
  using C5_name_keyword
    [where rnd = Exact and Prop = "TaggedProperty ''Label'' FNameProperty ''Name''" and t = "''Name''"
       and n = NAME_None and Object = 1 and recurse = "\<lambda>p. None"
       and H = "\<lambda>a. Instance (ClassWith ''Obj'' [TaggedProperty ''Label'' FNameProperty ''Name''] [])
                 (NameValue NAME_None)"]
  by (simp add: example_defs keyword_defs)

text \<open>
  C5, the claim as stated fails: the match is not case-sensitive. The tag \<open>memsafe\<close>, which
  is not the keyword \<open>MemSafe\<close> and names no function of the class, is resolved to the
  \<open>MemSafe\<close> rule.
\<close>

theorem C5_counterexample:
  "''memsafe'' \<noteq> ''MemSafe''
   \<and> CheckProperty Exact (\<lambda>p. None)
        (\<lambda>a. Instance
                (ClassWith ''Obj'' [TaggedProperty ''Target'' (FObjectProperty ''UObject'') ''memsafe''] [])
                (ObjectValue None))
        1 (TaggedProperty ''Target'' (FObjectProperty ''UObject'') ''memsafe'')
       = Some (Fatal (MemSafeViolation ''Obj'' ''Target''), [])
   \<and> FindFunctionByName
        (ClassWith ''Obj'' [TaggedProperty ''Target'' (FObjectProperty ''UObject'') ''memsafe''] [])
        ''memsafe'' = None"
  by (simp add: CheckProperty_def MemSafeRule_def checkf_def FindFunctionByName_def
        example_defs keyword_defs)

section \<open>The same-class guard of Contract*\<close>





section \<open>Custom predicates must be const\<close>

lemma CustomRule_calls:
  "CustomRule H Object C P Rule = (R, Cs) \<Longrightarrow> c \<in> set Cs \<Longrightarrow> ConstCall H c"
  by (auto simp: CustomRule_def ConstCall_def FindFunctionByName_def find_Some_iff Let_def
        split: option.splits if_splits)

lemma CheckFunction_calls:
  "CheckFunction H Object F = (R, Cs) \<Longrightarrow> c \<in> set Cs \<Longrightarrow> F \<in> set (Functions (ObjClass (H Object)))
     \<Longrightarrow> ConstCall H c"
  by (auto simp: CheckFunction_def ConstCall_def Let_def split: if_splits)

lemma CheckFunctions_calls:
  "CheckFunctions H Object Fs = (R, Cs) \<Longrightarrow> c \<in> set Cs
     \<Longrightarrow> set Fs \<subseteq> set (Functions (ObjClass (H Object))) \<Longrightarrow> ConstCall H c"
proof (induction Fs arbitrary: R Cs)
  case Nil
  then show ?case by simp
next
  case (Cons F Fs)
  obtain R1 C1 where one: "CheckFunction H Object F = (R1, C1)" by (cases "CheckFunction H Object F")
  obtain R2 C2 where rest: "CheckFunctions H Object Fs = (R2, C2)"
    by (cases "CheckFunctions H Object Fs")
  have "c \<in> set C1 \<or> c \<in> set C2"
    using Cons.prems(1,2) one rest by (auto split: Outcome.splits)
  then show ?case
  proof
    assume "c \<in> set C1"
    then show ?thesis using CheckFunction_calls [OF one] Cons.prems(3) by simp
  next
    assume "c \<in> set C2"
    then show ?thesis using Cons.IH [OF rest] Cons.prems(3) by simp
  qed
qed

lemma CheckProperty_calls:
  assumes "CheckProperty rnd recurse H Object Prop = Some (R, Cs)" and "c \<in> set Cs"
      and "\<And>p R' Cs'. recurse p = Some (R', Cs') \<Longrightarrow> c \<in> set Cs' \<Longrightarrow> ConstCall H c"
  shows "ConstCall H c"
  using assms CustomRule_calls
  by (auto simp: CheckProperty_def ContractRule_def Let_def split: option.splits if_splits)

lemma CheckProperties_calls:
  assumes "\<And>p R' Cs'. recurse p = Some (R', Cs') \<Longrightarrow> c \<in> set Cs' \<Longrightarrow> ConstCall H c"
  shows "CheckProperties rnd recurse H Object Props = Some (R, Cs) \<Longrightarrow> c \<in> set Cs \<Longrightarrow> ConstCall H c"
proof (induction Props arbitrary: R Cs)
  case Nil
  then show ?case by simp
next
  case (Cons Prop Props)
  obtain R1 C1 where one: "CheckProperty rnd recurse H Object Prop = Some (R1, C1)"
    using Cons.prems(1) by (auto split: option.splits)
  show ?case
  proof (cases "c \<in> set C1")
    case True
    show ?thesis
    proof (rule CheckProperty_calls [OF one True])
      fix p R' Cs'
      assume "recurse p = Some (R', Cs')" and "c \<in> set Cs'"
      then show "ConstCall H c" by (rule assms)
    qed
  next
    case False
    then obtain R2 C2 where "CheckProperties rnd recurse H Object Props = Some (R2, C2)" "c \<in> set C2"
      using Cons.prems one by (auto split: option.splits Outcome.splits)
    then show ?thesis using Cons.IH by blast
  qed
qed

lemma CheckClassInvariants_calls:
  "CheckClassInvariants rnd fuel H Object = Some (R, Cs) \<Longrightarrow> c \<in> set Cs \<Longrightarrow> ConstCall H c"
proof (induction fuel arbitrary: Object R Cs)
  case 0
  then show ?case by simp
next
  case (Suc fuel)
  then obtain Obj where obj: "Object = Some Obj"
    by (cases Object) auto
  obtain R1 C1 where props: "CheckProperties rnd (CheckClassInvariants rnd fuel H) H Obj
                               (Properties (ObjClass (H Obj))) = Some (R1, C1)"
    using Suc.prems(1) obj by (auto split: option.splits)
  obtain R2 C2 where funcs: "CheckFunctions H Obj (Functions (ObjClass (H Obj))) = (R2, C2)"
    by (cases "CheckFunctions H Obj (Functions (ObjClass (H Obj)))")
  have "c \<in> set C1 \<or> c \<in> set C2"
    using Suc.prems obj props funcs by (auto split: Outcome.splits)
  then show ?case
  proof
    assume inC1: "c \<in> set C1"
    show ?thesis
    proof (rule CheckProperties_calls [OF _ props inC1])
      fix p R' Cs'
      assume "CheckClassInvariants rnd fuel H p = Some (R', Cs')" and "c \<in> set Cs'"
      then show "ConstCall H c" by (rule Suc.IH)
    qed
  next
    assume "c \<in> set C2"
    then show ?thesis using CheckFunctions_calls [OF funcs] by simp
  qed
qed


lemma CheckFunctions_append:
  "CheckFunctions H Object (Pre @ Post) =
     (case CheckFunctions H Object Pre of
        (Passed, Calls) \<Rightarrow>
          (case CheckFunctions H Object Post of (R, Calls') \<Rightarrow> (R, Calls @ Calls'))
      | (R, Calls) \<Rightarrow> (R, Calls))"
  by (induction Pre) (auto split: Outcome.splits prod.splits)

lemma CheckFunctions_Passed:
  "CheckFunctions H Object Fs = (Passed, Calls) \<Longrightarrow> F \<in> set Fs
     \<Longrightarrow> \<exists>Cs. CheckFunction H Object F = (Passed, Cs)"
  by (induction Fs arbitrary: Calls) (auto split: Outcome.splits prod.splits)

lemma CheckClassInvariants_functions_Passed:
  assumes "CheckClassInvariants rnd fuel H (Some Obj) = Some (Passed, Calls)"
      and "F \<in> set (Functions (ObjClass (H Obj)))"
  shows "\<exists>Cs. CheckFunction H Obj F = (Passed, Cs)"
proof (cases fuel)
  case 0
  then show ?thesis using assms(1) by simp
next
  case (Suc n)
  then obtain Cs where "CheckFunctions H Obj (Functions (ObjClass (H Obj))) = (Passed, Cs)"
    using assms(1) by (auto split: option.splits Outcome.splits prod.splits)
  then show ?thesis using CheckFunctions_Passed assms(2) by blast
qed

text \<open>
  C9. A function that is not declared const is rejected with a configuration error before
  it is invoked, whatever its parameters and return type, on both paths. When a property
  tag that is no keyword names such a function of the object's class, the pass stops at
  that property with the failure of the fallback path; when such a function of the
  object's class is tagged as an invariant, the pass stops at it in the loop over
  functions, after the properties and the functions before it have passed; in both cases
  the trace of calls is the one made before, and a pass over an object whose class has a
  tagged function that is not const never succeeds. A tagged const function of the
  expected signature is invoked, and every call made in a whole pass is to a const
  function of the class of the object it is made on.
\<close>

theorem C9_non_const_method_rejected:
  "(FindFunctionByName (ObjClass (H Object)) Rule = Some F \<and> \<not> FUNC_Const F
      \<longrightarrow> CustomRule H Object C P Rule = (Fatal (FunctionNotConst Rule), []))
   \<and> (InvariantMeta Prop = Some Rule \<and> \<not> IsRuleKeyword Rule
       \<and> FindFunctionByName (ObjClass (H Object)) Rule = Some F \<and> \<not> FUNC_Const F
      \<longrightarrow> CheckProperty rnd recurse H Object Prop = Some (Fatal (FunctionNotConst Rule), []))
   \<and> (HasInvariantMeta G \<and> \<not> FUNC_Const G
      \<longrightarrow> CheckFunction H Object G
            = (Fatal (MethodNotConst (FuncName G) (ClassName (ObjClass (H Object)))), []))
   \<and> TierOf (FunctionNotConst Rule) = ConfigurationError
   \<and> TierOf (MethodNotConst (FuncName G) (ClassName (ObjClass (H Object)))) = ConfigurationError
   \<and> (CheckClassInvariants rnd fuel H Start = Some (R, Calls) \<longrightarrow> (\<forall>c \<in> set Calls. ConstCall H c))
   \<and> (Properties (ObjClass (H Object)) = Pre @ Prop # Post
       \<and> CheckProperties rnd (CheckClassInvariants rnd fuel H) H Object Pre = Some (Passed, PCalls)
       \<and> InvariantMeta Prop = Some Rule \<and> \<not> IsRuleKeyword Rule
       \<and> FindFunctionByName (ObjClass (H Object)) Rule = Some F \<and> \<not> FUNC_Const F
      \<longrightarrow> CheckClassInvariants rnd (Suc fuel) H (Some Object)
            = Some (Fatal (FunctionNotConst Rule), PCalls))
   \<and> (CheckProperties rnd (CheckClassInvariants rnd fuel H) H Object
          (Properties (ObjClass (H Object))) = Some (Passed, PCalls)
       \<and> Functions (ObjClass (H Object)) = FPre @ G # FPost
       \<and> CheckFunctions H Object FPre = (Passed, FCalls)
       \<and> HasInvariantMeta G \<and> \<not> FUNC_Const G
      \<longrightarrow> CheckClassInvariants rnd (Suc fuel) H (Some Object)
            = Some (Fatal (MethodNotConst (FuncName G) (ClassName (ObjClass (H Object)))),
                    PCalls @ FCalls))
   \<and> (G \<in> set (Functions (ObjClass (H Object))) \<and> HasInvariantMeta G \<and> \<not> FUNC_Const G
      \<longrightarrow> CheckClassInvariants rnd fuel H (Some Object) \<noteq> Some (Passed, Calls))
   \<and> (HasInvariantMeta G \<and> FUNC_Const G \<and> NumParms G = 1 \<and> ReturnProperty G = Some FBoolProperty
      \<longrightarrow> CheckFunction H Object G
            = (checkf (ObjReturns (H Object) (FuncName G))
                 (MethodCheckFailed (FuncName G) (ClassName (ObjClass (H Object)))),
               [(Object, FuncName G)]))"
proof -
  have trace: "CheckClassInvariants rnd fuel H Start = Some (R, Calls)
                 \<longrightarrow> (\<forall>c \<in> set Calls. ConstCall H c)"
    using CheckClassInvariants_calls by blast
  have body: "CheckProperty rnd r H Object Prop = Some (Fatal (FunctionNotConst Rule), [])"
    if "InvariantMeta Prop = Some Rule" "\<not> IsRuleKeyword Rule"
       "FindFunctionByName (ObjClass (H Object)) Rule = Some F" "\<not> FUNC_Const F" for r
    using that by (simp add: dispatch_Custom CustomRule_def)
  have tagged: "CheckFunction H Object G
            = (Fatal (MethodNotConst (FuncName G) (ClassName (ObjClass (H Object)))), [])"
    if "HasInvariantMeta G" "\<not> FUNC_Const G"
    using that by (simp add: CheckFunction_def)
  have property_path: "CheckClassInvariants rnd (Suc fuel) H (Some Object)
            = Some (Fatal (FunctionNotConst Rule), PCalls)"
    if props: "Properties (ObjClass (H Object)) = Pre @ Prop # Post"
       and pre: "CheckProperties rnd (CheckClassInvariants rnd fuel H) H Object Pre
                   = Some (Passed, PCalls)"
       and tag: "InvariantMeta Prop = Some Rule" "\<not> IsRuleKeyword Rule"
                "FindFunctionByName (ObjClass (H Object)) Rule = Some F" "\<not> FUNC_Const F"
  proof -
    have "CheckProperties rnd (CheckClassInvariants rnd fuel H) H Object (Pre @ Prop # Post)
            = Some (Fatal (FunctionNotConst Rule), PCalls)"
      by (simp add: CheckProperties_append pre body [OF tag])
    then show ?thesis using props by simp
  qed
  have function_path: "CheckClassInvariants rnd (Suc fuel) H (Some Object)
            = Some (Fatal (MethodNotConst (FuncName G) (ClassName (ObjClass (H Object)))),
                    PCalls @ FCalls)"
    if all: "CheckProperties rnd (CheckClassInvariants rnd fuel H) H Object
               (Properties (ObjClass (H Object))) = Some (Passed, PCalls)"
       and funcs: "Functions (ObjClass (H Object)) = FPre @ G # FPost"
       and pre: "CheckFunctions H Object FPre = (Passed, FCalls)"
       and tag: "HasInvariantMeta G" "\<not> FUNC_Const G"
  proof -
    have "CheckFunctions H Object (FPre @ G # FPost)
            = (Fatal (MethodNotConst (FuncName G) (ClassName (ObjClass (H Object)))), FCalls)"
      by (simp add: CheckFunctions_append pre tagged [OF tag])
    then show ?thesis using all funcs by simp
  qed
  have never: "CheckClassInvariants rnd fuel H (Some Object) \<noteq> Some (Passed, Calls)"
    if "G \<in> set (Functions (ObjClass (H Object)))" "HasInvariantMeta G" "\<not> FUNC_Const G"
    using CheckClassInvariants_functions_Passed [of rnd fuel H Object Calls G] tagged that
    by auto
  have custom: "FindFunctionByName (ObjClass (H Object)) Rule = Some F \<and> \<not> FUNC_Const F
      \<longrightarrow> CustomRule H Object C P Rule = (Fatal (FunctionNotConst Rule), [])"
    by (simp add: CustomRule_def)
  have invoked: "HasInvariantMeta G \<and> FUNC_Const G \<and> NumParms G = 1
       \<and> ReturnProperty G = Some FBoolProperty
      \<longrightarrow> CheckFunction H Object G
            = (checkf (ObjReturns (H Object) (FuncName G))
                 (MethodCheckFailed (FuncName G) (ClassName (ObjClass (H Object)))),
               [(Object, FuncName G)])"
    by (simp add: CheckFunction_def Let_def)
  have tiers: "TierOf (FunctionNotConst Rule) = ConfigurationError"
    "TierOf (MethodNotConst (FuncName G) (ClassName (ObjClass (H Object)))) = ConfigurationError"
    by simp_all
  show ?thesis
    using trace body tagged property_path function_path never custom invoked tiers
    by blast
qed

theorem C9_non_const_method_rejected_witness:
  "FindFunctionByName
     (ClassWith ''Obj'' [TaggedProperty ''Ready'' FBoolProperty ''IsReady''] [NonConstPredicate])
     ''IsReady'' = Some NonConstPredicate
   \<and> CheckClassInvariants Exact (Suc 0)
        (\<lambda>a. Instance
                (ClassWith ''Obj'' [TaggedProperty ''Ready'' FBoolProperty ''IsReady'']
                   [NonConstPredicate])
                (BoolValue True))
        (Some 1)
      = Some (Fatal (FunctionNotConst ''IsReady''), [])
   \<and> CheckFunctions (\<lambda>a. Instance (ClassWith ''Obj'' [] [ConstPredicate, NonConstPredicate])
                            (BoolValue True))
        1 [ConstPredicate]
      = (Passed, [(1, ''IsAlive'')])
   \<and> CheckClassInvariants Exact (Suc 0)
        (\<lambda>a. Instance (ClassWith ''Obj'' [] [ConstPredicate, NonConstPredicate]) (BoolValue True))
        (Some 1)
      = Some (Fatal (MethodNotConst ''IsReady'' ''Obj''), [(1, ''IsAlive'')])
   \<and> ConstCall
        (\<lambda>a. Instance (ClassWith ''Obj'' [] [ConstPredicate, NonConstPredicate]) (BoolValue True))
        (1, ''IsAlive'')"
  using C9_non_const_method_rejected
    [where rnd = Exact and H = "\<lambda>a. Instance
                 (ClassWith ''Obj'' [TaggedProperty ''Ready'' FBoolProperty ''IsReady'']
                    [NonConstPredicate])
                 (BoolValue True)"
       and Object = 1 and Rule = "''IsReady''" and F = NonConstPredicate and G = NonConstPredicate
       and Prop = "TaggedProperty ''Ready'' FBoolProperty ''IsReady''" and recurse = "\<lambda>p. None"
       and C = "''Obj''" and P = "''Ready''" and fuel = 0 and Start = "Some 1"
       and Pre = "[]" and Post = "[]" and PCalls = "[]"
       and R = "Fatal (FunctionNotConst ''IsReady'')" and Calls = "[]"]
    C9_non_const_method_rejected
    [where rnd = Exact
       and H = "\<lambda>a. Instance (ClassWith ''Obj'' [] [ConstPredicate, NonConstPredicate])
                       (BoolValue True)"
       and Object = 1 and G = NonConstPredicate and fuel = 0 and PCalls = "[]"
       and FPre = "[ConstPredicate]" and FPost = "[]" and FCalls = "[(1, ''IsAlive'')]"]
    C9_non_const_method_rejected
    [where rnd = Exact
       and H = "\<lambda>a. Instance (ClassWith ''Obj'' [] [ConstPredicate, NonConstPredicate])
                       (BoolValue True)"
       and fuel = "Suc 0" and Start = "Some 1"
       and R = "Fatal (MethodNotConst ''IsReady'' ''Obj'')" and Calls = "[(1, ''IsAlive'')]"]
  by (simp add: FindFunctionByName_def NonConstPredicate_def ConstPredicate_def example_defs
        keyword_defs IsRuleKeyword_def CheckFunction_def checkf_def
        del: CheckClassInvariants.simps)

section \<open>A rule on a property of the wrong kind\<close>

lemma wrong_kind_ID:
  assumes "InvariantMeta Prop = Some t" and "FString_Equals t ''ID''"
      and "\<not> IsIntegerKind (Kind Prop)"
  shows "CheckProperty rnd recurse H Obj Prop
           = Some (Fatal (IDViolation (ClassName (ObjClass (H Obj))) (PropName Prop)), [])"
  using assms(3)
  by (simp add: dispatch_ID [OF assms(1,2)] IDRule_def TestIntegerProperty_def checkResult_def
        checkf_def)

lemma TestArithmeticProperty_wrong_kind:
  "\<not> IsNumericKind K \<Longrightarrow> TestArithmeticProperty K V PredI PredF = Inr False"
  by (simp add: TestArithmeticProperty_def TestIntegerProperty_def IsNumericKind_def)

lemma wrong_kind_Gte0:
  assumes "InvariantMeta Prop = Some t" and "FString_Equals t ''Gte0''"
      and "\<not> IsNumericKind (Kind Prop)"
  shows "CheckProperty rnd recurse H Obj Prop
           = Some (Fatal (Gte0Violation (ClassName (ObjClass (H Obj))) (PropName Prop)), [])"
  by (simp add: dispatch_Gte0 [OF assms(1,2)] Gte0Rule_def
        TestArithmeticProperty_wrong_kind [OF assms(3)] checkResult_def checkf_def)

lemma wrong_kind_Gt0:
  assumes "InvariantMeta Prop = Some t" and "FString_Equals t ''Gt0''"
      and "\<not> IsNumericKind (Kind Prop)"
  shows "CheckProperty rnd recurse H Obj Prop
           = Some (Fatal (Gt0Violation (ClassName (ObjClass (H Obj))) (PropName Prop)), [])"
  by (simp add: dispatch_Gt0 [OF assms(1,2)] Gt0Rule_def
        TestArithmeticProperty_wrong_kind [OF assms(3)] checkResult_def checkf_def)

lemma wrong_kind_Lte0:
  assumes "InvariantMeta Prop = Some t" and "FString_Equals t ''Lte0''"
      and "\<not> IsNumericKind (Kind Prop)"
  shows "CheckProperty rnd recurse H Obj Prop
           = Some (Fatal (Lte0Violation (ClassName (ObjClass (H Obj))) (PropName Prop)), [])"
  by (simp add: dispatch_Lte0 [OF assms(1,2)] Lte0Rule_def
        TestArithmeticProperty_wrong_kind [OF assms(3)] checkResult_def checkf_def)

lemma wrong_kind_Lt0:
  assumes "InvariantMeta Prop = Some t" and "FString_Equals t ''Lt0''"
      and "\<not> IsNumericKind (Kind Prop)"
  shows "CheckProperty rnd recurse H Obj Prop
           = Some (Fatal (Lt0Violation (ClassName (ObjClass (H Obj))) (PropName Prop)), [])"
  by (simp add: dispatch_Lt0 [OF assms(1,2)] Lt0Rule_def
        TestArithmeticProperty_wrong_kind [OF assms(3)] checkResult_def checkf_def)

lemma failing_property_never_passes:
  assumes "Prop \<in> set (Properties (ObjClass (H Obj)))"
      and "\<And>r. CheckProperty rnd r H Obj Prop = Some (Fatal F, [])"
  shows "CheckClassInvariants rnd fuel H (Some Obj) \<noteq> Some (Passed, Calls)"
proof
  assume "CheckClassInvariants rnd fuel H (Some Obj) = Some (Passed, Calls)"
  then obtain n Cs where "CheckProperty rnd (CheckClassInvariants rnd n H) H Obj Prop = Some (Passed, Cs)"
    using CheckClassInvariants_Passed assms(1) by blast
  then show False using assms(2) by simp
qed

text \<open>
  C10. \<open>ID\<close> on a property that is not of an integer kind, and \<open>Gte0\<close>, \<open>Gt0\<close>, \<open>Lte0\<close>,
  \<open>Lt0\<close> on a property that is not numeric: the kind-dispatch helper returns false, the
  property fails with the violation failure of its rule, the same failure a failing
  integer value gives, which is a data violation; and no pass over an object of a class
  with such a property ends as passed.
\<close>

theorem C10_wrong_kind_is_data_violation:
  assumes "InvariantMeta Prop = Some t" and "Prop \<in> set (Properties (ObjClass (H Obj)))"
  shows
   "(let C = ClassName (ObjClass (H Obj)); P = PropName Prop; K = Kind Prop in
     (FString_Equals t ''ID'' \<and> \<not> IsIntegerKind K \<longrightarrow>
        TestIntegerProperty K V PredI = Inr False
        \<and> CheckProperty rnd recurse H Obj Prop = Some (Fatal (IDViolation C P), [])
        \<and> CheckClassInvariants rnd fuel H (Some Obj) \<noteq> Some (Passed, Calls))
     \<and> (FString_Equals t ''Gte0'' \<and> \<not> IsNumericKind K \<longrightarrow>
        TestArithmeticProperty K V PredI PredF = Inr False
        \<and> CheckProperty rnd recurse H Obj Prop = Some (Fatal (Gte0Violation C P), [])
        \<and> CheckClassInvariants rnd fuel H (Some Obj) \<noteq> Some (Passed, Calls))
     \<and> (FString_Equals t ''Gt0'' \<and> \<not> IsNumericKind K \<longrightarrow>
        TestArithmeticProperty K V PredI PredF = Inr False
        \<and> CheckProperty rnd recurse H Obj Prop = Some (Fatal (Gt0Violation C P), [])
        \<and> CheckClassInvariants rnd fuel H (Some Obj) \<noteq> Some (Passed, Calls))
     \<and> (FString_Equals t ''Lte0'' \<and> \<not> IsNumericKind K \<longrightarrow>
        TestArithmeticProperty K V PredI PredF = Inr False
        \<and> CheckProperty rnd recurse H Obj Prop = Some (Fatal (Lte0Violation C P), [])
        \<and> CheckClassInvariants rnd fuel H (Some Obj) \<noteq> Some (Passed, Calls))
     \<and> (FString_Equals t ''Lt0'' \<and> \<not> IsNumericKind K \<longrightarrow>
        TestArithmeticProperty K V PredI PredF = Inr False
        \<and> CheckProperty rnd recurse H Obj Prop = Some (Fatal (Lt0Violation C P), [])
        \<and> CheckClassInvariants rnd fuel H (Some Obj) \<noteq> Some (Passed, Calls))
     \<and> IDRule C P FIntProperty (IntValue (- 1)) = Fatal (IDViolation C P)
     \<and> Gte0Rule C P FIntProperty (IntValue (- 1)) = Fatal (Gte0Violation C P)
     \<and> Gt0Rule C P FIntProperty (IntValue 0) = Fatal (Gt0Violation C P)
     \<and> Lte0Rule C P FIntProperty (IntValue 1) = Fatal (Lte0Violation C P)
     \<and> Lt0Rule C P FIntProperty (IntValue 0) = Fatal (Lt0Violation C P)
     \<and> TierOf (IDViolation C P) = DataViolation
     \<and> TierOf (Gte0Violation C P) = DataViolation
     \<and> TierOf (Gt0Violation C P) = DataViolation
     \<and> TierOf (Lte0Violation C P) = DataViolation
     \<and> TierOf (Lt0Violation C P) = DataViolation)"
proof -
  note meta = assms(1) and mem = assms(2)
  have id: "FString_Equals t ''ID'' \<and> \<not> IsIntegerKind (Kind Prop) \<longrightarrow>
        TestIntegerProperty (Kind Prop) V PredI = Inr False
        \<and> CheckProperty rnd recurse H Obj Prop
            = Some (Fatal (IDViolation (ClassName (ObjClass (H Obj))) (PropName Prop)), [])
        \<and> CheckClassInvariants rnd fuel H (Some Obj) \<noteq> Some (Passed, Calls)"
  proof (intro impI, elim conjE)
    assume kw: "FString_Equals t ''ID''" and kind: "\<not> IsIntegerKind (Kind Prop)"
    have body: "\<And>r. CheckProperty rnd r H Obj Prop
                  = Some (Fatal (IDViolation (ClassName (ObjClass (H Obj))) (PropName Prop)), [])"
      using wrong_kind_ID [OF meta kw kind] .
    show "TestIntegerProperty (Kind Prop) V PredI = Inr False
        \<and> CheckProperty rnd recurse H Obj Prop
            = Some (Fatal (IDViolation (ClassName (ObjClass (H Obj))) (PropName Prop)), [])
        \<and> CheckClassInvariants rnd fuel H (Some Obj) \<noteq> Some (Passed, Calls)"
      using body failing_property_never_passes [OF mem body] kind
      by (simp add: TestIntegerProperty_def TestArithmeticProperty_wrong_kind)
  qed
  have gte: "FString_Equals t ''Gte0'' \<and> \<not> IsNumericKind (Kind Prop) \<longrightarrow>
        TestArithmeticProperty (Kind Prop) V PredI PredF = Inr False
        \<and> CheckProperty rnd recurse H Obj Prop
            = Some (Fatal (Gte0Violation (ClassName (ObjClass (H Obj))) (PropName Prop)), [])
        \<and> CheckClassInvariants rnd fuel H (Some Obj) \<noteq> Some (Passed, Calls)"
  proof (intro impI, elim conjE)
    assume kw: "FString_Equals t ''Gte0''" and kind: "\<not> IsNumericKind (Kind Prop)"
    have body: "\<And>r. CheckProperty rnd r H Obj Prop
                  = Some (Fatal (Gte0Violation (ClassName (ObjClass (H Obj))) (PropName Prop)), [])"
      using wrong_kind_Gte0 [OF meta kw kind] .
    show "TestArithmeticProperty (Kind Prop) V PredI PredF = Inr False
        \<and> CheckProperty rnd recurse H Obj Prop
            = Some (Fatal (Gte0Violation (ClassName (ObjClass (H Obj))) (PropName Prop)), [])
        \<and> CheckClassInvariants rnd fuel H (Some Obj) \<noteq> Some (Passed, Calls)"
      using body failing_property_never_passes [OF mem body] kind
      by (simp add: TestIntegerProperty_def TestArithmeticProperty_wrong_kind)
  qed
  have gt: "FString_Equals t ''Gt0'' \<and> \<not> IsNumericKind (Kind Prop) \<longrightarrow>
        TestArithmeticProperty (Kind Prop) V PredI PredF = Inr False
        \<and> CheckProperty rnd recurse H Obj Prop
            = Some (Fatal (Gt0Violation (ClassName (ObjClass (H Obj))) (PropName Prop)), [])
        \<and> CheckClassInvariants rnd fuel H (Some Obj) \<noteq> Some (Passed, Calls)"
  proof (intro impI, elim conjE)
    assume kw: "FString_Equals t ''Gt0''" and kind: "\<not> IsNumericKind (Kind Prop)"
    have body: "\<And>r. CheckProperty rnd r H Obj Prop
                  = Some (Fatal (Gt0Violation (ClassName (ObjClass (H Obj))) (PropName Prop)), [])"
      using wrong_kind_Gt0 [OF meta kw kind] .
    show "TestArithmeticProperty (Kind Prop) V PredI PredF = Inr False
        \<and> CheckProperty rnd recurse H Obj Prop
            = Some (Fatal (Gt0Violation (ClassName (ObjClass (H Obj))) (PropName Prop)), [])
        \<and> CheckClassInvariants rnd fuel H (Some Obj) \<noteq> Some (Passed, Calls)"
      using body failing_property_never_passes [OF mem body] kind
      by (simp add: TestIntegerProperty_def TestArithmeticProperty_wrong_kind)
  qed
  have lte: "FString_Equals t ''Lte0'' \<and> \<not> IsNumericKind (Kind Prop) \<longrightarrow>
        TestArithmeticProperty (Kind Prop) V PredI PredF = Inr False
        \<and> CheckProperty rnd recurse H Obj Prop
            = Some (Fatal (Lte0Violation (ClassName (ObjClass (H Obj))) (PropName Prop)), [])
        \<and> CheckClassInvariants rnd fuel H (Some Obj) \<noteq> Some (Passed, Calls)"
  proof (intro impI, elim conjE)
    assume kw: "FString_Equals t ''Lte0''" and kind: "\<not> IsNumericKind (Kind Prop)"
    have body: "\<And>r. CheckProperty rnd r H Obj Prop
                  = Some (Fatal (Lte0Violation (ClassName (ObjClass (H Obj))) (PropName Prop)), [])"
      using wrong_kind_Lte0 [OF meta kw kind] .
    show "TestArithmeticProperty (Kind Prop) V PredI PredF = Inr False
        \<and> CheckProperty rnd recurse H Obj Prop
            = Some (Fatal (Lte0Violation (ClassName (ObjClass (H Obj))) (PropName Prop)), [])
        \<and> CheckClassInvariants rnd fuel H (Some Obj) \<noteq> Some (Passed, Calls)"
      using body failing_property_never_passes [OF mem body] kind
      by (simp add: TestIntegerProperty_def TestArithmeticProperty_wrong_kind)
  qed
  have lt: "FString_Equals t ''Lt0'' \<and> \<not> IsNumericKind (Kind Prop) \<longrightarrow>
        TestArithmeticProperty (Kind Prop) V PredI PredF = Inr False
        \<and> CheckProperty rnd recurse H Obj Prop
            = Some (Fatal (Lt0Violation (ClassName (ObjClass (H Obj))) (PropName Prop)), [])
        \<and> CheckClassInvariants rnd fuel H (Some Obj) \<noteq> Some (Passed, Calls)"
  proof (intro impI, elim conjE)
    assume kw: "FString_Equals t ''Lt0''" and kind: "\<not> IsNumericKind (Kind Prop)"
    have body: "\<And>r. CheckProperty rnd r H Obj Prop
                  = Some (Fatal (Lt0Violation (ClassName (ObjClass (H Obj))) (PropName Prop)), [])"
      using wrong_kind_Lt0 [OF meta kw kind] .
    show "TestArithmeticProperty (Kind Prop) V PredI PredF = Inr False
        \<and> CheckProperty rnd recurse H Obj Prop
            = Some (Fatal (Lt0Violation (ClassName (ObjClass (H Obj))) (PropName Prop)), [])
        \<and> CheckClassInvariants rnd fuel H (Some Obj) \<noteq> Some (Passed, Calls)"
      using body failing_property_never_passes [OF mem body] kind
      by (simp add: TestIntegerProperty_def TestArithmeticProperty_wrong_kind)
  qed
  have failing:
    "IDRule C P FIntProperty (IntValue (- 1)) = Fatal (IDViolation C P)"
    "Gte0Rule C P FIntProperty (IntValue (- 1)) = Fatal (Gte0Violation C P)"
    "Gt0Rule C P FIntProperty (IntValue 0) = Fatal (Gt0Violation C P)"
    "Lte0Rule C P FIntProperty (IntValue 1) = Fatal (Lte0Violation C P)"
    "Lt0Rule C P FIntProperty (IntValue 0) = Fatal (Lt0Violation C P)" for C P
    by (simp_all add: IDRule_def Gte0Rule_def Gt0Rule_def Lte0Rule_def Lt0Rule_def
          TestArithmeticProperty_def TestIntegerProperty_def IsIntegerKind_def INDEX_NONE_As_def
          checkResult_def checkf_def)
  show ?thesis
    unfolding Let_def using id gte gt lte lt by (simp add: failing)
qed


theorem C10_wrong_kind_is_data_violation_witness:
  "CheckProperty Exact (\<lambda>p. None)
     (\<lambda>a. Instance (ClassWith ''Obj'' [TaggedProperty ''Label'' FNameProperty ''ID''] [])
             (NameValue (Name ''Hero'')))
     1 (TaggedProperty ''Label'' FNameProperty ''ID'')
   = Some (Fatal (IDViolation ''Obj'' ''Label''), [])
   \<and> CheckClassInvariants Exact (Suc 0)
       (\<lambda>a. Instance (ClassWith ''Obj'' [TaggedProperty ''Label'' FNameProperty ''ID''] [])
               (NameValue (Name ''Hero'')))
       (Some 1)
     \<noteq> Some (Passed, [])
   \<and> CheckProperty Exact (\<lambda>p. None)
       (\<lambda>a. Instance (ClassWith ''Obj'' [TaggedProperty ''Title'' FStrProperty ''Gte0''] [])
               OtherValue)
       1 (TaggedProperty ''Title'' FStrProperty ''Gte0'')
     = Some (Fatal (Gte0Violation ''Obj'' ''Title''), [])"
  using C10_wrong_kind_is_data_violation
    [where rnd = Exact and Prop = "TaggedProperty ''Label'' FNameProperty ''ID''" and t = "''ID''" and Obj = 1
       and H = "\<lambda>a. Instance (ClassWith ''Obj'' [TaggedProperty ''Label'' FNameProperty ''ID''] [])
                 (NameValue (Name ''Hero''))"
       and recurse = "\<lambda>p. None" and fuel = "Suc 0" and Calls = "[]"]
    C10_wrong_kind_is_data_violation
    [where rnd = Exact and Prop = "TaggedProperty ''Title'' FStrProperty ''Gte0''" and t = "''Gte0''" and Obj = 1
       and H = "\<lambda>a. Instance (ClassWith ''Obj'' [TaggedProperty ''Title'' FStrProperty ''Gte0''] [])
                 OtherValue"
       and recurse = "\<lambda>p. None" and fuel = "Suc 0" and Calls = "[]"]
  by (simp add: IsNumericKind_def IsIntegerKind_def example_defs keyword_defs Let_def
        del: CheckClassInvariants.simps)

section \<open>Floating-point ranges\<close>

lemma DoubleRounding_error:
  assumes "DoubleRounding rnd" and "\<bar>y\<bar> \<le> 10"
  shows "y - 1 / 10 ^ 11 \<le> rnd y" and "rnd y \<le> y + 1 / 10 ^ 11"
proof -
  have "\<bar>y\<bar> \<le> 10 ^ 7" using assms(2) by simp
  then have "\<bar>rnd y - y\<bar> \<le> \<bar>y\<bar> / 2 ^ 52 + 1 / 10 ^ 300"
    using assms(1) unfolding DoubleRounding_def by blast
  also have "\<dots> \<le> 10 / 2 ^ 52 + 1 / 10 ^ 300"
    using assms(2) by (simp add: divide_right_mono)
  also have "\<dots> \<le> 1 / 10 ^ 11" by simp
  finally have "\<bar>rnd y - y\<bar> \<le> 1 / 10 ^ 11" .
  then show "y - 1 / 10 ^ 11 \<le> rnd y" and "rnd y \<le> y + 1 / 10 ^ 11" by linarith+
qed

lemma DoubleRounding_error_large:
  assumes "DoubleRounding rnd" and "\<bar>y\<bar> \<le> 10 ^ 7"
  shows "y - 1 / 10 ^ 8 \<le> rnd y" and "rnd y \<le> y + 1 / 10 ^ 8"
proof -
  have "\<bar>rnd y - y\<bar> \<le> \<bar>y\<bar> / 2 ^ 52 + 1 / 10 ^ 300"
    using assms unfolding DoubleRounding_def by blast
  also have "\<dots> \<le> 10 ^ 7 / 2 ^ 52 + 1 / 10 ^ 300"
    using assms(2) by (simp add: divide_right_mono)
  also have "\<dots> \<le> 1 / 10 ^ 8" by simp
  finally have "\<bar>rnd y - y\<bar> \<le> 1 / 10 ^ 8" .
  then show "y - 1 / 10 ^ 8 \<le> rnd y" and "rnd y \<le> y + 1 / 10 ^ 8" by linarith+
qed

lemma Clamp_tolerance:
  assumes R: "DoubleRounding rnd"
  shows "Clamp X (rnd (1 / 10 ^ 10)) (rnd (1 / 10 ^ 3))
           = max (rnd (1 / 10 ^ 10)) (min X (rnd (1 / 10 ^ 3)))"
    and "9 / 10 ^ 11 \<le> Clamp X (rnd (1 / 10 ^ 10)) (rnd (1 / 10 ^ 3))"
    and "Clamp X (rnd (1 / 10 ^ 10)) (rnd (1 / 10 ^ 3)) \<le> 1 / 10 ^ 3 + 1 / 10 ^ 11"
proof -
  have lo: "9 / 10 ^ 11 \<le> rnd (1 / 10 ^ 10)" "rnd (1 / 10 ^ 10) \<le> 2 / 10 ^ 10"
    using DoubleRounding_error [OF R, of "1 / 10 ^ 10"] by simp_all
  have hi: "0.9 / 10 ^ 3 \<le> rnd (1 / 10 ^ 3)" "rnd (1 / 10 ^ 3) \<le> 1 / 10 ^ 3 + 1 / 10 ^ 11"
    using DoubleRounding_error [OF R, of "1 / 10 ^ 3"] by simp_all
  have le: "rnd (1 / 10 ^ 10) \<le> rnd (1 / 10 ^ 3)" using lo(2) hi(1) by simp
  show "Clamp X (rnd (1 / 10 ^ 10)) (rnd (1 / 10 ^ 3))
           = max (rnd (1 / 10 ^ 10)) (min X (rnd (1 / 10 ^ 3)))"
    using le by (simp add: Clamp_def max_def min_def)
  show "9 / 10 ^ 11 \<le> Clamp X (rnd (1 / 10 ^ 10)) (rnd (1 / 10 ^ 3))"
    using le lo(1) hi(1) by (simp add: Clamp_def)
  show "Clamp X (rnd (1 / 10 ^ 10)) (rnd (1 / 10 ^ 3)) \<le> 1 / 10 ^ 3 + 1 / 10 ^ 11"
    using le lo(2) hi(2) by (simp add: Clamp_def)
qed

lemma RangeFloatPredicate_near_unit:
  assumes R: "DoubleRounding rnd"
      and a: "\<bar>a\<bar> \<le> 1 / 10 ^ 9" and b: "\<bar>b - 1\<bar> \<le> 1 / 10 ^ 9"
      and x: "1 \<le> x" "x \<le> 1.2"
  shows "(x \<le> 1.0000005 \<longrightarrow> RangeFloatPredicate rnd a b True True x)
       \<and> (1.00001 \<le> x \<longrightarrow> \<not> RangeFloatPredicate rnd a b True True x)"
proof -
  define S where "S = max 1 (max \<bar>a\<bar> (max \<bar>b\<bar> \<bar>x\<bar>))"
  define c where "c = rnd (1 / 10 ^ 6)"
  define q where "q = rnd (S * c)"
  have a': "- (1 / 10 ^ 9) \<le> a" "a \<le> 1 / 10 ^ 9" using a by linarith+
  have b': "1 - 1 / 10 ^ 9 \<le> b" "b \<le> 1 + 1 / 10 ^ 9" using b by linarith+
  have S: "1 \<le> S" "S \<le> 1.2"
    using a b x by (auto simp: S_def max_def abs_if split: if_splits)
  have c: "0.99 / 10 ^ 6 \<le> c" "c \<le> 1.01 / 10 ^ 6"
    using DoubleRounding_error [OF R, of "1 / 10 ^ 6"] by (simp_all add: c_def)
  have p_lower: "0.99 / 10 ^ 6 \<le> S * c"
  proof -
    have "1 * c \<le> S * c" using S(1) c(1) by (intro mult_right_mono) simp_all
    then show ?thesis using c(1) by (simp; linarith)
  qed
  have p_upper: "S * c \<le> 1.22 / 10 ^ 6"
  proof -
    have "S * c \<le> 1.2 * c" using S(2) c(1) by (intro mult_right_mono) simp_all
    then show ?thesis using c(2) by (simp; linarith)
  qed
  have "\<bar>S * c\<bar> \<le> 10" using p_lower p_upper by simp
  from DoubleRounding_error [OF R this]
  have q: "0.9 / 10 ^ 6 \<le> q" "q \<le> 1.3 / 10 ^ 6"
    using p_lower p_upper by (simp_all add: q_def)
  have lo: "rnd (1 / 10 ^ 10) \<le> 2 / 10 ^ 10"
    using DoubleRounding_error [OF R, of "1 / 10 ^ 10"] by simp
  have hi: "0.9 / 10 ^ 3 \<le> rnd (1 / 10 ^ 3)"
    using DoubleRounding_error [OF R, of "1 / 10 ^ 3"] by simp
  have Eps: "Clamp q (rnd (1 / 10 ^ 10)) (rnd (1 / 10 ^ 3)) = q"
    using q lo hi by (simp add: Clamp_def)
  have "\<bar>a - q\<bar> \<le> 10" using a' q by simp
  from DoubleRounding_error [OF R this]
  have lower_ok: "rnd (a - q) \<le> x"
    using a' q x(1) by simp
  have "\<bar>b + q\<bar> \<le> 10" using b' q by simp
  note up = DoubleRounding_error [OF R this]
  have upper_near: "x \<le> 1.0000005 \<Longrightarrow> x \<le> rnd (b + q)"
    using up b' q by simp
  have upper_far: "1.00001 \<le> x \<Longrightarrow> \<not> x \<le> rnd (b + q)"
    using up b' q by simp
  have body: "RangeFloatPredicate rnd a b True True x
                = (rnd (a - q) \<le> x \<and> x \<le> rnd (b + q))"
    unfolding RangeFloatPredicate_def Let_def S_def [symmetric] c_def [symmetric]
      q_def [symmetric] Eps
    by simp
  show ?thesis
    unfolding body using lower_ok upper_near upper_far by blast
qed

lemma Range_unit_interval:
  assumes "K = FFloatProperty \<or> K = FDoubleProperty"
  shows "RangeRule rnd C P ''Range[0.0,1.0]'' K (FloatValue x) =
           (if \<not> rnd 0 \<le> rnd 1 then Fatal (RangeBoundsOrderOn C P)
            else checkf (RangeFloatPredicate rnd (rnd 0) (rnd 1) True True x) (RangeViolation C P))"
proof -
  have parse: "ParseRange C P ''Range[0.0,1.0]'' =
     Inr \<lparr> bLowerInclusive = True, bUpperInclusive = True,
           LowerTrimmed = ''0.0'', UpperTrimmed = ''1.0'' \<rparr>"
    by (simp add: ParseRange_def string_defs)
  have bounds: "DecimalValue ''0.0'' = 0" "DecimalValue ''1.0'' = 1"
    by (simp_all add: DecimalValue_def Pow10_def ExponentOf_def string_defs number_defs)
  show ?thesis
    using assms
    by (auto simp: RangeRule_def parse bounds Atod_def IsIntegerKind_def
          TestArithmeticProperty_def TestIntegerProperty_def checkResult_def)
qed

lemma RangeFloatPredicate_clamped:
  assumes R: "DoubleRounding rnd"
      and a: "\<bar>a\<bar> \<le> 1 / 10 ^ 9" and b: "\<bar>b - 1000000\<bar> \<le> 1 / 10 ^ 7"
      and x: "1000000 \<le> x" "x \<le> 1000001"
  shows "(x \<le> 1000000.0009 \<longrightarrow> RangeFloatPredicate rnd a b True True x)
       \<and> (1000000.0011 \<le> x \<longrightarrow> \<not> RangeFloatPredicate rnd a b True True x)"
proof -
  define S where "S = max 1 (max \<bar>a\<bar> (max \<bar>b\<bar> \<bar>x\<bar>))"
  define c where "c = rnd (1 / 10 ^ 6)"
  define q where "q = rnd (S * c)"
  define h where "h = rnd (1 / 10 ^ 3)"
  have a': "- (1 / 10 ^ 9) \<le> a" "a \<le> 1 / 10 ^ 9" using a by linarith+
  have b': "1000000 - 1 / 10 ^ 7 \<le> b" "b \<le> 1000000 + 1 / 10 ^ 7" using b by linarith+
  have S: "1000000 \<le> S" "S \<le> 1000001"
    using a b x by (auto simp: S_def max_def abs_if split: if_splits)
  have c: "0.99 / 10 ^ 6 \<le> c" "c \<le> 1.01 / 10 ^ 6"
    using DoubleRounding_error [OF R, of "1 / 10 ^ 6"] by (simp_all add: c_def)
  have p_lower: "0.99 \<le> S * c"
  proof -
    have "1000000 * c \<le> S * c" using S(1) c(1) by (intro mult_right_mono) simp_all
    then show ?thesis using c(1) by (simp; linarith)
  qed
  have p_upper: "S * c \<le> 1.02"
  proof -
    have "S * c \<le> 1000001 * c" using S(2) c(1) by (intro mult_right_mono) simp_all
    then show ?thesis using c(2) by (simp; linarith)
  qed
  have "\<bar>S * c\<bar> \<le> 10" using p_lower p_upper by simp
  from DoubleRounding_error [OF R this]
  have q: "0.98 \<le> q"
    using p_lower by (simp add: q_def)
  have lo: "rnd (1 / 10 ^ 10) \<le> 2 / 10 ^ 10"
    using DoubleRounding_error [OF R, of "1 / 10 ^ 10"] by simp
  have h: "1 / 10 ^ 3 - 1 / 10 ^ 11 \<le> h" "h \<le> 1 / 10 ^ 3 + 1 / 10 ^ 11"
    using DoubleRounding_error [OF R, of "1 / 10 ^ 3"] by (simp_all add: h_def)
  have Eps: "Clamp q (rnd (1 / 10 ^ 10)) h = h"
    using q lo h by (simp add: Clamp_def)
  have "\<bar>a - h\<bar> \<le> 10" using a' h by simp
  from DoubleRounding_error [OF R this]
  have lower_ok: "rnd (a - h) \<le> x"
    using a' h x(1) by simp
  have "\<bar>b + h\<bar> \<le> 10 ^ 7" using b' h by simp
  note up = DoubleRounding_error_large [OF R this]
  have upper_near: "x \<le> 1000000.0009 \<Longrightarrow> x \<le> rnd (b + h)"
    using up b' h by simp
  have upper_far: "1000000.0011 \<le> x \<Longrightarrow> \<not> x \<le> rnd (b + h)"
    using up b' h by simp
  have body: "RangeFloatPredicate rnd a b True True x
                = (rnd (a - h) \<le> x \<and> x \<le> rnd (b + h))"
    unfolding RangeFloatPredicate_def Let_def S_def [symmetric] c_def [symmetric]
      q_def [symmetric] h_def [symmetric] Eps
    by simp
  show ?thesis
    unfolding body using lower_ok upper_near upper_far by blast
qed

lemma Range_million_interval:
  assumes "K = FFloatProperty \<or> K = FDoubleProperty"
  shows "RangeRule rnd C P ''Range[0,1000000]'' K (FloatValue x) =
           (if \<not> rnd 0 \<le> rnd 1000000 then Fatal (RangeBoundsOrderOn C P)
            else checkf (RangeFloatPredicate rnd (rnd 0) (rnd 1000000) True True x)
                   (RangeViolation C P))"
proof -
  have parse: "ParseRange C P ''Range[0,1000000]'' =
     Inr \<lparr> bLowerInclusive = True, bUpperInclusive = True,
           LowerTrimmed = ''0'', UpperTrimmed = ''1000000'' \<rparr>"
    by (simp add: ParseRange_def string_defs)
  have bounds: "DecimalValue ''0'' = 0" "DecimalValue ''1000000'' = 1000000"
    by (simp_all add: DecimalValue_def Pow10_def ExponentOf_def string_defs number_defs)
  show ?thesis
    using assms
    by (auto simp: RangeRule_def parse bounds Atod_def IsIntegerKind_def
          TestArithmeticProperty_def TestIntegerProperty_def checkResult_def)
qed

text \<open>
  C8. For a \<open>float\<close> or \<open>double\<close> property with a Range tag, the bounds are parsed with
  \<open>Atod\<close>, an inverted pair of bounds is a configuration error, and the value is compared
  with \<open>lower - epsilon\<close> and \<open>upper + epsilon\<close> under the two inclusivity flags, where
  \<open>epsilon = clamp(max(1, |lower|, |upper|, |value|) * 1e-6, 1e-10, 1e-3)\<close>, every
  operation rounded to a double. For every rounding within the error bound of binary64:
  the clamp is \<open>max(1e-10, min(x, 1e-3))\<close>, so epsilon lies between the doubles of
  \<open>1e-10\<close> and \<open>1e-3\<close> whatever the scale; a property tagged \<open>Range[0.0,1.0]\<close> passes
  with every value from 1 to 1.0000005, which covers 1.0000001 and the \<open>float\<close> and
  \<open>double\<close> nearest to it, and fails with every value from 1.00001 to 1.2, which covers
  1.1 and the numbers nearest to it; a property tagged \<open>Range[0,1000000]\<close>, where the
  scaled tolerance of about 1 is cut down to \<open>1e-3\<close>, passes with every value from
  1000000 to 1000000.0009 and fails with every value from 1000000.0011 to 1000001, which
  covers 1000000.5. Values and bounds are finite numbers.
\<close>

theorem C8_float_range:
  "((K = FFloatProperty \<or> K = FDoubleProperty) \<and> ParseRange C P Rule = Inr B \<longrightarrow>
      RangeRule rnd C P Rule K (FloatValue v) =
        (let LowerD = Atod rnd (LowerTrimmed B); UpperD = Atod rnd (UpperTrimmed B);
             Eps = Clamp (rnd (max 1 (max \<bar>LowerD\<bar> (max \<bar>UpperD\<bar> \<bar>v\<bar>)) * rnd (1 / 10 ^ 6)))
                     (rnd (1 / 10 ^ 10)) (rnd (1 / 10 ^ 3))
         in if \<not> LowerD \<le> UpperD then Fatal (RangeBoundsOrderOn C P)
            else checkf ((if bLowerInclusive B then v \<ge> rnd (LowerD - Eps)
                          else v > rnd (LowerD - Eps))
                         \<and> (if bUpperInclusive B then v \<le> rnd (UpperD + Eps)
                            else v < rnd (UpperD + Eps)))
                   (RangeViolation C P)))
   \<and> TierOf (RangeBoundsOrderOn C P) = ConfigurationError
   \<and> (DoubleRounding rnd \<and> (K = FFloatProperty \<or> K = FDoubleProperty)
        \<and> 1 \<le> w \<and> w \<le> 1.0000005 \<longrightarrow>
        RangeRule rnd C P ''Range[0.0,1.0]'' K (FloatValue w) = Passed
        \<and> CheckClassInvariants rnd (Suc 0)
             (\<lambda>a. Instance (ClassWith C [TaggedProperty P K ''Range[0.0,1.0]''] []) (FloatValue w))
             (Some Obj)
            = Some (Passed, []))
   \<and> (DoubleRounding rnd \<and> (K = FFloatProperty \<or> K = FDoubleProperty)
        \<and> 1.00001 \<le> w \<and> w \<le> 1.2 \<longrightarrow>
        RangeRule rnd C P ''Range[0.0,1.0]'' K (FloatValue w) = Fatal (RangeViolation C P)
        \<and> CheckClassInvariants rnd (Suc 0)
             (\<lambda>a. Instance (ClassWith C [TaggedProperty P K ''Range[0.0,1.0]''] []) (FloatValue w))
             (Some Obj)
            = Some (Fatal (RangeViolation C P), []))
   \<and> (DoubleRounding rnd \<longrightarrow>
        Clamp X (rnd (1 / 10 ^ 10)) (rnd (1 / 10 ^ 3))
          = max (rnd (1 / 10 ^ 10)) (min X (rnd (1 / 10 ^ 3)))
        \<and> 9 / 10 ^ 11 \<le> Clamp X (rnd (1 / 10 ^ 10)) (rnd (1 / 10 ^ 3))
        \<and> Clamp X (rnd (1 / 10 ^ 10)) (rnd (1 / 10 ^ 3)) \<le> 1 / 10 ^ 3 + 1 / 10 ^ 11)
   \<and> (DoubleRounding rnd \<and> (K = FFloatProperty \<or> K = FDoubleProperty)
        \<and> 1000000 \<le> u \<and> u \<le> 1000000.0009 \<longrightarrow>
        RangeRule rnd C P ''Range[0,1000000]'' K (FloatValue u) = Passed
        \<and> CheckClassInvariants rnd (Suc 0)
             (\<lambda>a. Instance (ClassWith C [TaggedProperty P K ''Range[0,1000000]''] []) (FloatValue u))
             (Some Obj)
            = Some (Passed, []))
   \<and> (DoubleRounding rnd \<and> (K = FFloatProperty \<or> K = FDoubleProperty)
        \<and> 1000000.0011 \<le> u \<and> u \<le> 1000001 \<longrightarrow>
        RangeRule rnd C P ''Range[0,1000000]'' K (FloatValue u) = Fatal (RangeViolation C P)
        \<and> CheckClassInvariants rnd (Suc 0)
             (\<lambda>a. Instance (ClassWith C [TaggedProperty P K ''Range[0,1000000]''] []) (FloatValue u))
             (Some Obj)
            = Some (Fatal (RangeViolation C P), []))"
proof -
  have general: "(K = FFloatProperty \<or> K = FDoubleProperty) \<and> ParseRange C P Rule = Inr B \<longrightarrow>
      RangeRule rnd C P Rule K (FloatValue v) =
        (let LowerD = Atod rnd (LowerTrimmed B); UpperD = Atod rnd (UpperTrimmed B);
             Eps = Clamp (rnd (max 1 (max \<bar>LowerD\<bar> (max \<bar>UpperD\<bar> \<bar>v\<bar>)) * rnd (1 / 10 ^ 6)))
                     (rnd (1 / 10 ^ 10)) (rnd (1 / 10 ^ 3))
         in if \<not> LowerD \<le> UpperD then Fatal (RangeBoundsOrderOn C P)
            else checkf ((if bLowerInclusive B then v \<ge> rnd (LowerD - Eps)
                          else v > rnd (LowerD - Eps))
                         \<and> (if bUpperInclusive B then v \<le> rnd (UpperD + Eps)
                            else v < rnd (UpperD + Eps)))
                   (RangeViolation C P))"
    by (auto simp: RangeRule_def IsIntegerKind_def TestArithmeticProperty_def
          TestIntegerProperty_def RangeFloatPredicate_def checkResult_def Let_def)
  have tier: "TierOf (RangeBoundsOrderOn C P) = ConfigurationError" by simp
  have pass: "CheckClassInvariants rnd (Suc 0)
        (\<lambda>a. Instance (ClassWith C [TaggedProperty P K ''Range[0.0,1.0]''] []) (FloatValue w))
        (Some Obj)
       = Some (RangeRule rnd C P ''Range[0.0,1.0]'' K (FloatValue w), [])"
    by (cases "RangeRule rnd C P ''Range[0.0,1.0]'' K (FloatValue w)")
       (simp_all add: CheckProperty_def example_defs keyword_defs)
  have pass_million: "CheckClassInvariants rnd (Suc 0)
        (\<lambda>a. Instance (ClassWith C [TaggedProperty P K ''Range[0,1000000]''] []) (FloatValue u))
        (Some Obj)
       = Some (RangeRule rnd C P ''Range[0,1000000]'' K (FloatValue u), [])"
    by (cases "RangeRule rnd C P ''Range[0,1000000]'' K (FloatValue u)")
       (simp_all add: CheckProperty_def example_defs keyword_defs)
  have unit: "RangeRule rnd C P ''Range[0.0,1.0]'' K (FloatValue w)
                = checkf (RangeFloatPredicate rnd (rnd 0) (rnd 1) True True w) (RangeViolation C P)"
    if R: "DoubleRounding rnd" and K: "K = FFloatProperty \<or> K = FDoubleProperty"
  proof -
    have "rnd 0 \<le> rnd 1"
      using DoubleRounding_error [OF R, of 0] DoubleRounding_error [OF R, of 1] by simp
    then show ?thesis by (simp add: Range_unit_interval [OF K])
  qed
  have decide: "(w \<le> 1.0000005 \<longrightarrow> RangeFloatPredicate rnd (rnd 0) (rnd 1) True True w)
       \<and> (1.00001 \<le> w \<longrightarrow> \<not> RangeFloatPredicate rnd (rnd 0) (rnd 1) True True w)"
    if R: "DoubleRounding rnd" and w: "1 \<le> w" "w \<le> 1.2"
  proof (rule RangeFloatPredicate_near_unit [OF R _ _ w])
    have "- (1 / 10 ^ 11) \<le> rnd 0" and "rnd 0 \<le> 1 / 10 ^ 11"
      using DoubleRounding_error [OF R, of 0] by simp_all
    then show "\<bar>rnd 0\<bar> \<le> 1 / 10 ^ 9" unfolding abs_le_iff by simp
    have "1 - 1 / 10 ^ 11 \<le> rnd 1" and "rnd 1 \<le> 1 + 1 / 10 ^ 11"
      using DoubleRounding_error [OF R, of 1] by simp_all
    then show "\<bar>rnd 1 - 1\<bar> \<le> 1 / 10 ^ 9" unfolding abs_le_iff by simp
  qed
  have million: "RangeRule rnd C P ''Range[0,1000000]'' K (FloatValue u)
                = checkf (RangeFloatPredicate rnd (rnd 0) (rnd 1000000) True True u)
                    (RangeViolation C P)"
    if R: "DoubleRounding rnd" and K: "K = FFloatProperty \<or> K = FDoubleProperty"
  proof -
    have "rnd 0 \<le> rnd 1000000"
      using DoubleRounding_error [OF R, of 0] DoubleRounding_error_large [OF R, of 1000000]
      by simp
    then show ?thesis by (simp add: Range_million_interval [OF K])
  qed
  have decide_million:
    "(u \<le> 1000000.0009 \<longrightarrow> RangeFloatPredicate rnd (rnd 0) (rnd 1000000) True True u)
       \<and> (1000000.0011 \<le> u \<longrightarrow> \<not> RangeFloatPredicate rnd (rnd 0) (rnd 1000000) True True u)"
    if R: "DoubleRounding rnd" and u: "1000000 \<le> u" "u \<le> 1000001"
  proof (rule RangeFloatPredicate_clamped [OF R _ _ u])
    have "- (1 / 10 ^ 11) \<le> rnd 0" and "rnd 0 \<le> 1 / 10 ^ 11"
      using DoubleRounding_error [OF R, of 0] by simp_all
    then show "\<bar>rnd 0\<bar> \<le> 1 / 10 ^ 9" unfolding abs_le_iff by simp
    have "1000000 - 1 / 10 ^ 8 \<le> rnd 1000000" and "rnd 1000000 \<le> 1000000 + 1 / 10 ^ 8"
      using DoubleRounding_error_large [OF R, of 1000000] by simp_all
    then show "\<bar>rnd 1000000 - 1000000\<bar> \<le> 1 / 10 ^ 7" unfolding abs_le_iff by simp
  qed
  have near: "DoubleRounding rnd \<and> (K = FFloatProperty \<or> K = FDoubleProperty)
        \<and> 1 \<le> w \<and> w \<le> 1.0000005 \<longrightarrow>
        RangeRule rnd C P ''Range[0.0,1.0]'' K (FloatValue w) = Passed"
    using unit decide by (auto simp: checkf_def)
  have far: "DoubleRounding rnd \<and> (K = FFloatProperty \<or> K = FDoubleProperty)
        \<and> 1.00001 \<le> w \<and> w \<le> 1.2 \<longrightarrow>
        RangeRule rnd C P ''Range[0.0,1.0]'' K (FloatValue w) = Fatal (RangeViolation C P)"
    using unit decide by (auto simp: checkf_def)
  have within: "DoubleRounding rnd \<and> (K = FFloatProperty \<or> K = FDoubleProperty)
        \<and> 1000000 \<le> u \<and> u \<le> 1000000.0009 \<longrightarrow>
        RangeRule rnd C P ''Range[0,1000000]'' K (FloatValue u) = Passed"
    using million decide_million by (auto simp: checkf_def)
  have beyond: "DoubleRounding rnd \<and> (K = FFloatProperty \<or> K = FDoubleProperty)
        \<and> 1000000.0011 \<le> u \<and> u \<le> 1000001 \<longrightarrow>
        RangeRule rnd C P ''Range[0,1000000]'' K (FloatValue u) = Fatal (RangeViolation C P)"
    using million decide_million by (auto simp: checkf_def)
  have clamp: "DoubleRounding rnd \<longrightarrow>
        Clamp X (rnd (1 / 10 ^ 10)) (rnd (1 / 10 ^ 3))
          = max (rnd (1 / 10 ^ 10)) (min X (rnd (1 / 10 ^ 3)))
        \<and> 9 / 10 ^ 11 \<le> Clamp X (rnd (1 / 10 ^ 10)) (rnd (1 / 10 ^ 3))
        \<and> Clamp X (rnd (1 / 10 ^ 10)) (rnd (1 / 10 ^ 3)) \<le> 1 / 10 ^ 3 + 1 / 10 ^ 11"
    using Clamp_tolerance [of rnd X] by blast
  show ?thesis
    unfolding pass pass_million
    using general tier near far within beyond clamp by blast
qed

theorem C8_float_range_witness:
  "DoubleRounding Exact
   \<and> ParseRange ''Obj'' ''Alpha'' ''Range[0.0,1.0]'' =
       Inr \<lparr> bLowerInclusive = True, bUpperInclusive = True,
             LowerTrimmed = ''0.0'', UpperTrimmed = ''1.0'' \<rparr>
   \<and> RangeRule Exact ''Obj'' ''Alpha'' ''Range[0.0,1.0]'' FDoubleProperty (FloatValue 0.5)
       = Passed
   \<and> RangeRule Exact ''Obj'' ''Alpha'' ''Range[0.0,1.0]'' FDoubleProperty (FloatValue 1.0000001)
       = Passed
   \<and> CheckClassInvariants Exact (Suc 0)
        (\<lambda>a. Instance (ClassWith ''Obj'' [TaggedProperty ''Alpha'' FFloatProperty ''Range[0.0,1.0]''] [])
                (FloatValue 1.1))
        (Some 1)
       = Some (Fatal (RangeViolation ''Obj'' ''Alpha''), [])
   \<and> Clamp 1.0000005 (Exact (1 / 10 ^ 10)) (Exact (1 / 10 ^ 3)) = 1 / 10 ^ 3
   \<and> RangeRule Exact ''Obj'' ''Alpha'' ''Range[0,1000000]'' FDoubleProperty
        (FloatValue 1000000.0005)
       = Passed
   \<and> CheckClassInvariants Exact (Suc 0)
        (\<lambda>a. Instance (ClassWith ''Obj'' [TaggedProperty ''Alpha'' FDoubleProperty ''Range[0,1000000]''] [])
                (FloatValue 1000000.5))
        (Some 1)
       = Some (Fatal (RangeViolation ''Obj'' ''Alpha''), [])"
proof -
  have R: "DoubleRounding Exact"
    by (simp add: DoubleRounding_def Exact_def)
  have parse: "ParseRange ''Obj'' ''Alpha'' ''Range[0.0,1.0]'' =
       Inr \<lparr> bLowerInclusive = True, bUpperInclusive = True,
             LowerTrimmed = ''0.0'', UpperTrimmed = ''1.0'' \<rparr>"
    by (simp add: ParseRange_def string_defs)
  have bounds: "DecimalValue ''0.0'' = 0" "DecimalValue ''1.0'' = 1"
    by (simp_all add: DecimalValue_def Pow10_def ExponentOf_def string_defs number_defs)
  have inside: "RangeRule Exact ''Obj'' ''Alpha'' ''Range[0.0,1.0]'' FDoubleProperty
                  (FloatValue 0.5) = Passed"
    using C8_float_range [where rnd = Exact and C = "''Obj''" and P = "''Alpha''" and Obj = 1
             and K = FDoubleProperty and Rule = "''Range[0.0,1.0]''" and v = "0.5"
             and B = "\<lparr> bLowerInclusive = True, bUpperInclusive = True,
                         LowerTrimmed = ''0.0'', UpperTrimmed = ''1.0'' \<rparr>",
             THEN conjunct1]
    by (simp add: parse bounds Atod_def Exact_def Clamp_def checkf_def)
  have just_above: "RangeRule Exact ''Obj'' ''Alpha'' ''Range[0.0,1.0]'' FDoubleProperty
                      (FloatValue 1.0000001) = Passed"
    using C8_float_range [where rnd = Exact and C = "''Obj''" and P = "''Alpha''" and Obj = 1
             and K = FDoubleProperty and w = "1.0000001",
             THEN conjunct2, THEN conjunct2, THEN conjunct1] R by simp
  have above: "CheckClassInvariants Exact (Suc 0)
        (\<lambda>a. Instance (ClassWith ''Obj'' [TaggedProperty ''Alpha'' FFloatProperty ''Range[0.0,1.0]''] [])
                (FloatValue 1.1))
        (Some 1)
       = Some (Fatal (RangeViolation ''Obj'' ''Alpha''), [])"
    using C8_float_range [where rnd = Exact and C = "''Obj''" and P = "''Alpha''" and Obj = 1
             and K = FFloatProperty and w = "1.1",
             THEN conjunct2, THEN conjunct2, THEN conjunct2, THEN conjunct1] R
    by (simp del: CheckClassInvariants.simps)
  have cut: "Clamp 1.0000005 (Exact (1 / 10 ^ 10)) (Exact (1 / 10 ^ 3)) = 1 / 10 ^ 3"
    using C8_float_range [where rnd = Exact and C = "''Obj''" and P = "''Alpha''" and Obj = 1
             and X = "1.0000005",
             THEN conjunct2, THEN conjunct2, THEN conjunct2, THEN conjunct2, THEN conjunct1] R
    by (simp add: Exact_def)
  have million: "RangeRule Exact ''Obj'' ''Alpha'' ''Range[0,1000000]'' FDoubleProperty
        (FloatValue 1000000.0005) = Passed"
    using C8_float_range [where rnd = Exact and C = "''Obj''" and P = "''Alpha''" and Obj = 1
             and K = FDoubleProperty and u = "1000000.0005",
             THEN conjunct2, THEN conjunct2, THEN conjunct2, THEN conjunct2, THEN conjunct2,
             THEN conjunct1] R by simp
  have half: "CheckClassInvariants Exact (Suc 0)
        (\<lambda>a. Instance (ClassWith ''Obj'' [TaggedProperty ''Alpha'' FDoubleProperty ''Range[0,1000000]''] [])
                (FloatValue 1000000.5))
        (Some 1)
       = Some (Fatal (RangeViolation ''Obj'' ''Alpha''), [])"
    using C8_float_range [where rnd = Exact and C = "''Obj''" and P = "''Alpha''" and Obj = 1
             and K = FDoubleProperty and u = "1000000.5",
             THEN conjunct2, THEN conjunct2, THEN conjunct2, THEN conjunct2, THEN conjunct2,
             THEN conjunct2] R
    by (simp del: CheckClassInvariants.simps)
  show ?thesis
    by (intro conjI) (fact R parse inside just_above above cut million half)+
qed

end
